theory Spec2Isabelle
  imports Complex_Main
begin

section \<open>Python values\<close>

text \<open>
  The program is dynamically typed: every payload it reads is whatever
  \<^verbatim>\<open>response.json()\<close> decoded. The decoded values are modelled as they are in Python:
  \<^verbatim>\<open>None\<close>, \<^verbatim>\<open>bool\<close>, \<^verbatim>\<open>int\<close>, \<^verbatim>\<open>str\<close>, \<^verbatim>\<open>list\<close> and \<^verbatim>\<open>dict\<close> with string keys.
  A string is a list of characters, one per code point. A dict \<open>JObj kvs\<close> is the
  association list of its items; where a key occurs twice the first item is the dict's
  and the later one is ignored. JSON numbers with a fraction are not modelled.
\<close>

datatype json =
    JNull
  | JBool bool
  | JInt int
  | JStr string
  | JList "json list"
  | JObj "(string \<times> json) list"

text \<open>The exceptions the program can meet; all of them are subclasses of \<^verbatim>\<open>Exception\<close>.\<close>

datatype error =
    RequestException
  | HTTPError
  | JSONDecodeError
  | AttributeError
  | TypeError
  | KeyError
  | IndexError
  | OverflowError

text \<open>Truth value of a Python object, as \<^verbatim>\<open>if x\<close> and \<^verbatim>\<open>not x\<close> take it.\<close>

fun truthy :: "json \<Rightarrow> bool" where
  "truthy JNull = False"
| "truthy (JBool b) = b"
| "truthy (JInt i) = (i \<noteq> 0)"
| "truthy (JStr s) = (s \<noteq> [])"
| "truthy (JList xs) = (xs \<noteq> [])"
| "truthy (JObj kvs) = (kvs \<noteq> [])"

text \<open>\<^verbatim>\<open>x.get(k, d)\<close>: only a dict has the method.\<close>

fun pyget :: "json \<Rightarrow> string \<Rightarrow> json \<Rightarrow> error + json" where
  "pyget (JObj kvs) k d = Inr (case map_of kvs k of None \<Rightarrow> d | Some v \<Rightarrow> v)"
| "pyget _ k d = Inl AttributeError"

text \<open>\<^verbatim>\<open>x[k]\<close> with a string key \<open>k\<close>.\<close>

fun pyitem :: "json \<Rightarrow> string \<Rightarrow> error + json" where
  "pyitem (JObj kvs) k = (case map_of kvs k of None \<Rightarrow> Inl KeyError | Some v \<Rightarrow> Inr v)"
| "pyitem _ k = Inl TypeError"

text \<open>\<^verbatim>\<open>len(x)\<close>.\<close>

fun py_len :: "json \<Rightarrow> error + nat" where
  "py_len (JStr s) = Inr (length s)"
| "py_len (JList xs) = Inr (length xs)"
| "py_len (JObj kvs) = Inr (length (remdups (map fst kvs)))"
| "py_len _ = Inl TypeError"

text \<open>The items of a dict in order, without the ignored later duplicates.\<close>

fun entries :: "string list \<Rightarrow> (string \<times> json) list \<Rightarrow> (string \<times> json) list" where
  "entries seen [] = []"
| "entries seen ((k, v) # r) =
     (if k \<in> set seen then entries seen r else (k, v) # entries (k # seen) r)"

text \<open>\<^verbatim>\<open>for y in x\<close>: the sequence of values the loop runs over.\<close>

fun py_iter :: "json \<Rightarrow> error + json list" where
  "py_iter (JList xs) = Inr xs"
| "py_iter (JStr s) = Inr (map (\<lambda>c. JStr [c]) s)"
| "py_iter (JObj kvs) = Inr (map (\<lambda>kv. JStr (fst kv)) (entries [] kvs))"
| "py_iter _ = Inl TypeError"

text \<open>\<^verbatim>\<open>x[:n]\<close>. Slicing a dict raises (TypeError before Python 3.12, KeyError since).\<close>

fun py_slice :: "json \<Rightarrow> nat \<Rightarrow> error + json" where
  "py_slice (JStr s) n = Inr (JStr (take n s))"
| "py_slice (JList xs) n = Inr (JList (take n xs))"
| "py_slice _ n = Inl TypeError"

text \<open>\<^verbatim>\<open>x[0]\<close>.\<close>

fun py_first :: "json \<Rightarrow> error + json" where
  "py_first (JList []) = Inl IndexError"
| "py_first (JList (x # xs)) = Inr x"
| "py_first (JStr []) = Inl IndexError"
| "py_first (JStr (c # cs)) = Inr (JStr [c])"
| "py_first (JObj kvs) = Inl KeyError"
| "py_first _ = Inl TypeError"

text \<open>Booleans are integers in Python: \<^verbatim>\<open>True == 1\<close>.\<close>

fun num_of :: "json \<Rightarrow> int option" where
  "num_of (JBool b) = Some (if b then 1 else 0)"
| "num_of (JInt i) = Some i"
| "num_of _ = None"

text \<open>\<^verbatim>\<open>a == b\<close>. Two dicts are equal when they have the same keys with equal values.\<close>

fun py_eq :: "json \<Rightarrow> json \<Rightarrow> bool"
  and list_eq :: "json list \<Rightarrow> json list \<Rightarrow> bool"
  and obj_le :: "string list \<Rightarrow> (string \<times> json) list \<Rightarrow> (string \<times> json) list \<Rightarrow> bool"
where
  "py_eq JNull b = (b = JNull)"
| "py_eq (JBool x) b = (num_of b = Some (if x then 1 else 0))"
| "py_eq (JInt i) b = (num_of b = Some i)"
| "py_eq (JStr s) b = (b = JStr s)"
| "py_eq (JList xs) b = (case b of JList ys \<Rightarrow> list_eq xs ys | _ \<Rightarrow> False)"
| "py_eq (JObj kvs) b =
     (case b of
        JObj kws \<Rightarrow>
          length (remdups (map fst kvs)) = length (remdups (map fst kws)) \<and> obj_le [] kvs kws
      | _ \<Rightarrow> False)"
| "list_eq [] ys = (ys = [])"
| "list_eq (x # xs) ys = (case ys of [] \<Rightarrow> False | y # ys' \<Rightarrow> py_eq x y \<and> list_eq xs ys')"
| "obj_le seen [] kws = True"
| "obj_le seen ((k, v) # r) kws =
     (if k \<in> set seen then obj_le seen r kws
      else (case map_of kws k of None \<Rightarrow> False | Some w \<Rightarrow> py_eq v w) \<and> obj_le (k # seen) r kws)"

text \<open>\<^verbatim>\<open>s > t\<close> on strings: lexicographic on code points.\<close>

fun str_gt :: "string \<Rightarrow> string \<Rightarrow> bool" where
  "str_gt [] t = False"
| "str_gt (x # xs) [] = True"
| "str_gt (x # xs) (y # ys) =
     (if x = y then str_gt xs ys else (of_char y :: nat) < of_char x)"

text \<open>
  \<^verbatim>\<open>a > b\<close>. Numbers compare with numbers, strings with strings, lists with lists
  (at the first position where they differ); anything else is a TypeError.
\<close>

fun py_gt :: "json \<Rightarrow> json \<Rightarrow> error + bool"
  and list_gt :: "json list \<Rightarrow> json list \<Rightarrow> error + bool"
where
  "py_gt (JList xs) b = (case b of JList ys \<Rightarrow> list_gt xs ys | _ \<Rightarrow> Inl TypeError)"
| "py_gt (JStr s) b = (case b of JStr t \<Rightarrow> Inr (str_gt s t) | _ \<Rightarrow> Inl TypeError)"
| "py_gt (JBool x) b =
     (case num_of b of Some j \<Rightarrow> Inr (j < (if x then 1 else 0)) | None \<Rightarrow> Inl TypeError)"
| "py_gt (JInt i) b = (case num_of b of Some j \<Rightarrow> Inr (j < i) | None \<Rightarrow> Inl TypeError)"
| "py_gt JNull b = Inl TypeError"
| "py_gt (JObj kvs) b = Inl TypeError"
| "list_gt [] ys = Inr False"
| "list_gt (x # xs) [] = Inr True"
| "list_gt (x # xs) (y # ys) = (if py_eq x y then list_gt xs ys else py_gt x y)"

subsection \<open>Text of a value\<close>

text \<open>
  An f-string puts \<^verbatim>\<open>str(x)\<close> in its place: the string itself for a \<^verbatim>\<open>str\<close>, the
  \<^verbatim>\<open>repr\<close> for everything else.
\<close>

function digits :: "nat \<Rightarrow> string" where
  "digits n =
     (if n < 10 then [char_of (48 + n)] else digits (n div 10) @ [char_of (48 + n mod 10)])"
  by pat_completeness auto
termination
  by (relation "measure (\<lambda>n. n)") auto

definition str_of_int :: "int \<Rightarrow> string" where
  "str_of_int i = (if i < 0 then CHR ''-'' # digits (nat (- i)) else digits (nat i))"

definition hexdigit :: "nat \<Rightarrow> char" where
  "hexdigit n = (if n < 10 then char_of (48 + n) else char_of (87 + n))"

definition repr_char :: "char \<Rightarrow> char \<Rightarrow> string" where
  "repr_char q c =
     (let n = (of_char c :: nat) in
      if c = q \<or> c = CHR 0x5C then [CHR 0x5C, c]
      else if n = 9 then [CHR 0x5C, CHR ''t'']
      else if n = 10 then [CHR 0x5C, CHR ''n'']
      else if n = 13 then [CHR 0x5C, CHR ''r'']
      else if n < 32 \<or> (127 \<le> n \<and> n \<le> 160) \<or> n = 173
        then [CHR 0x5C, CHR ''x'', hexdigit (n div 16), hexdigit (n mod 16)]
      else [c])"

definition repr_str :: "string \<Rightarrow> string" where
  "repr_str s =
     (let q = (if CHR 0x27 \<in> set s \<and> CHR 0x22 \<notin> set s then CHR 0x22 else CHR 0x27)
      in q # concat (map (repr_char q) s) @ [q])"

fun py_repr :: "json \<Rightarrow> string"
  and repr_list :: "json list \<Rightarrow> string"
  and repr_items :: "string list \<Rightarrow> (string \<times> json) list \<Rightarrow> string"
where
  "py_repr JNull = ''None''"
| "py_repr (JBool b) = (if b then ''True'' else ''False'')"
| "py_repr (JInt i) = str_of_int i"
| "py_repr (JStr s) = repr_str s"
| "py_repr (JList xs) = ''['' @ repr_list xs @ '']''"
| "py_repr (JObj kvs) = ''{'' @ repr_items [] kvs @ ''}''"
| "repr_list [] = []"
| "repr_list (x # xs) = py_repr x @ (if xs = [] then [] else '', '' @ repr_list xs)"
| "repr_items seen [] = []"
| "repr_items seen ((k, v) # r) =
     (if k \<in> set seen then repr_items seen r
      else repr_str k @ '': '' @ py_repr v @
           (if entries (k # seen) r = [] then [] else '', '' @ repr_items (k # seen) r))"

fun py_str :: "json \<Rightarrow> string" where
  "py_str (JStr s) = s"
| "py_str j = py_repr j"

text \<open>\<^verbatim>\<open>s.replace(old, new)\<close> for a non-empty \<open>old\<close>: left to right, without overlaps.\<close>

function replace :: "string \<Rightarrow> string \<Rightarrow> string \<Rightarrow> string" where
  "replace old new [] = []"
| "replace old new (c # cs) =
     (if old \<noteq> [] \<and> take (length old) (c # cs) = old
      then new @ replace old new (drop (length old) (c # cs))
      else c # replace old new cs)"
  by pat_completeness auto
termination
  by (relation "measure (\<lambda>(old, new, s). length s)") auto

text \<open>\<^verbatim>\<open>x.replace(...)\<close> exists on strings only.\<close>

fun py_replace :: "json \<Rightarrow> string \<Rightarrow> string \<Rightarrow> error + string" where
  "py_replace (JStr s) old new = Inr (replace old new s)"
| "py_replace _ old new = Inl AttributeError"

section \<open>The service and the console\<close>

text \<open>
  A response carries its status code and its body; \<open>body = None\<close> is a body that is not
  JSON, on which \<^verbatim>\<open>response.json()\<close> raises. \<^verbatim>\<open>requests.get\<close> either raises or returns
  a response. The service is any function of the position of the request in the run and
  of the request itself, so the same URL may be answered differently each time.
\<close>

record response =
  status_code :: int
  body :: "json option"

datatype reply = Raises | Reply response

record request =
  url :: string
  params :: "(string \<times> json) list"

type_synonym service = "nat \<Rightarrow> request \<Rightarrow> reply"

text \<open>One constructor for each \<^verbatim>\<open>print\<close> of the program, with the values it interpolates.\<close>

datatype (plugins only: code) msg =
    MissingCredentials
  | EnsureEnvFile
  | ProcessingSpace string
  | Ruler
  | FetchingRepositoryDetails
  | FetchingSpaceTools
  | NoteHasLastCommitAt
  | WarningCouldNotFetchStatistics error
  | NoRepositoriesFoundInSpace
  | FoundRepositories nat
  | RepositoryReport nat string
  | ApiRequestError
  | JsonParsingError
  | UnexpectedError error
  | UsingRepositoryBranchesUrl
  | UsingDefaultBranchesUrl
  | FoundBranches nat
  | NoBranches204
  | TryingAlternativeEndpoint nat
  | AlternativeEndpointStatus nat int
  | AlternativeSuccess nat nat
  | AlternativeAlso204 nat
  | AlternativeFailed nat int
  | AlternativeException nat error
  | CouldNotFetchBranchesStatus int
  | BranchesResponseText
  | CouldNotFetchBranches error
  | CouldNotFetchTags error
  | FetchingCommitsFromBranch json
  | FoundCommitsInBranch nat json
  | CouldNotFetchCommitsForBranchStatus json int
  | CouldNotFetchCommitsForBranch json error
  | UsingRepositoryCommitsUrl
  | UsingDefaultCommitsUrl
  | FoundCommitsTotal nat
  | NoCommits422
  | TryingAlternativeCommitsEndpoint nat
  | AlternativeCommitsEndpointStatus nat int
  | AlternativeCommitsSuccess nat nat
  | AlternativeCommits204 nat
  | AlternativeCommitsFailed nat int
  | AlternativeCommitsException nat error
  | RepositoryHasNoCommits204
  | CouldNotFetchCommitsStatus int
  | CommitsResponseText
  | CouldNotFetchCommits error
  | ApiFailedEstimating
  | EstimatedCommits json json
  | EstimatedOneCommit
  | CouldNotFetchMergeRequests error
  | FinalStats
  | FetchingRepositoriesForSpace string
  | FoundRepositoriesInSpace nat string
  | NoRepositoriesOrError string

text \<open>What the run has done so far: the requests sent and the lines printed, in order.\<close>

record world =
  requests :: "request list"
  console :: "msg list"

definition http_get :: "service \<Rightarrow> string \<Rightarrow> (string \<times> json) list \<Rightarrow> world \<Rightarrow> reply \<times> world" where
  "http_get srv u ps w =
     (let rq = \<lparr>url = u, params = ps\<rparr>
      in (srv (length (requests w)) rq, w\<lparr>requests := requests w @ [rq]\<rparr>))"

definition print :: "msg \<Rightarrow> world \<Rightarrow> world" where
  "print m w = w\<lparr>console := console w @ [m]\<rparr>"

definition json_of :: "response \<Rightarrow> error + json" where
  "json_of resp = (case body resp of None \<Rightarrow> Inl JSONDecodeError | Some j \<Rightarrow> Inr j)"

section \<open>The statistics enricher: \<^verbatim>\<open>get_git_repo_statistics\<close>\<close>

text \<open>
  The local variables of the function, with the world. \<^verbatim>\<open>None\<close> is \<open>JNull\<close>. A
  \<^verbatim>\<open>try\<close> block is a function that returns the exception it met, if any, together with
  the variables as they were at that point: what was assigned before the exception stays
  assigned in the handler and after it.
\<close>

record frame =
  stats :: "string \<rightharpoonup> json"
  branches_list :: json
  all_commits :: json
  latest_commit :: json
  latest_commit_date :: json
  world :: world

definition say :: "msg \<Rightarrow> frame \<Rightarrow> frame" where
  "say m f = f\<lparr>world := print m (world f)\<rparr>"

definition requests_get :: "service \<Rightarrow> string \<Rightarrow> (string \<times> json) list \<Rightarrow> frame \<Rightarrow> reply \<times> frame" where
  "requests_get srv u ps f = (case http_get srv u ps (world f) of (r, w) \<Rightarrow> (r, f\<lparr>world := w\<rparr>))"

definition set_stat :: "string \<Rightarrow> json \<Rightarrow> frame \<Rightarrow> frame" where
  "set_stat k v f = f\<lparr>stats := (stats f)(k \<mapsto> v)\<rparr>"

definition initial_stats :: "string \<rightharpoonup> json" where
  "initial_stats =
     [''commits_count'' \<mapsto> JInt 0,
      ''branches_count'' \<mapsto> JInt 0,
      ''tags_count'' \<mapsto> JInt 0,
      ''merge_requests_count'' \<mapsto> JInt 0,
      ''last_commit_author'' \<mapsto> JStr [],
      ''last_commit_message'' \<mapsto> JStr [],
      ''last_commit_at'' \<mapsto> JStr []]"

definition initial_frame :: "world \<Rightarrow> frame" where
  "initial_frame w =
     \<lparr>stats = initial_stats, branches_list = JList [], all_commits = JList [],
      latest_commit = JNull, latest_commit_date = JNull, world = w\<rparr>"

definition api :: string where
  "api = ''https://in-api.assembla.com/v1/spaces/''"

text \<open>
  Lines 229-230, 299-300 and 349-350: the URL the detail record carries under \<open>key\<close>, with
  its host rewritten, when \<^verbatim>\<open>repo_data and repo_data.get(key)\<close> is true.
\<close>

definition url_from_repo_data :: "json option \<Rightarrow> string \<Rightarrow> error + string option" where
  "url_from_repo_data repo_data key =
     (case repo_data of
        None \<Rightarrow> Inr None
      | Some rd \<Rightarrow>
          if \<not> truthy rd then Inr None
          else (case pyget rd key JNull of
                  Inl e \<Rightarrow> Inl e
                | Inr v \<Rightarrow>
                    if \<not> truthy v then Inr None
                    else (case pyitem rd key of
                            Inl e \<Rightarrow> Inl e
                          | Inr u \<Rightarrow>
                              (case py_replace u ''www.assembla.com/v1'' ''in-api.assembla.com/v1'' of
                                 Inl e \<Rightarrow> Inl e
                               | Inr s \<Rightarrow> Inr (Some s)))))"

subsection \<open>Branches (lines 227-275)\<close>

definition alternative_endpoints :: "string \<Rightarrow> json \<Rightarrow> string list" where
  "alternative_endpoints space_id repo_id =
     [api @ space_id @ ''/space_tools/'' @ py_str repo_id @ ''/git/branches'',
      api @ space_id @ ''/repos/'' @ py_str repo_id @ ''/git/branches'',
      api @ space_id @ ''/git_repos/'' @ py_str repo_id @ ''/branches'']"

text \<open>
  The loop of lines 253-270 over the alternates that are left, \<open>i\<close> being the number of the
  first of them. Only the \<^verbatim>\<open>break\<close> of line 263 leaves the loop early; an exception
  inside the \<^verbatim>\<open>try\<close> is printed and the loop goes on.
\<close>

fun try_alternative_endpoints :: "service \<Rightarrow> string list \<Rightarrow> nat \<Rightarrow> frame \<Rightarrow> frame" where
  "try_alternative_endpoints srv [] i f = f"
| "try_alternative_endpoints srv (alt_url # rest) i f =
     (case requests_get srv alt_url [] (say (TryingAlternativeEndpoint i) f) of
        (Raises, f1) \<Rightarrow>
          try_alternative_endpoints srv rest (Suc i) (say (AlternativeException i RequestException) f1)
      | (Reply alt_response, f1) \<Rightarrow>
          let f2 = say (AlternativeEndpointStatus i (status_code alt_response)) f1 in
          if status_code alt_response = 200 then
            (case json_of alt_response of
               Inl e \<Rightarrow> try_alternative_endpoints srv rest (Suc i) (say (AlternativeException i e) f2)
             | Inr j \<Rightarrow>
                 let f3 = f2\<lparr>branches_list := j\<rparr> in
                 (case py_len j of
                    Inl e \<Rightarrow> try_alternative_endpoints srv rest (Suc i) (say (AlternativeException i e) f3)
                  | Inr n \<Rightarrow>
                      say (AlternativeSuccess i n) (set_stat ''branches_count'' (JInt (int n)) f3)))
          else if status_code alt_response = 204 then
            try_alternative_endpoints srv rest (Suc i) (say (AlternativeAlso204 i) f2)
          else
            try_alternative_endpoints srv rest (Suc i)
              (say (AlternativeFailed i (status_code alt_response)) f2))"

definition branches_try :: "service \<Rightarrow> string \<Rightarrow> json \<Rightarrow> json option \<Rightarrow> frame \<Rightarrow> error option \<times> frame" where
  "branches_try srv space_id repo_id repo_data f =
     (case url_from_repo_data repo_data ''branches_url'' of
        Inl e \<Rightarrow> (Some e, f)
      | Inr choice \<Rightarrow>
          (case requests_get srv
                  (case choice of Some u \<Rightarrow> u | None \<Rightarrow> api @ space_id @ ''/repos/git/branches'') []
                  (say (case choice of Some u \<Rightarrow> UsingRepositoryBranchesUrl
                        | None \<Rightarrow> UsingDefaultBranchesUrl) f) of
             (Raises, f1) \<Rightarrow> (Some RequestException, f1)
           | (Reply response, f1) \<Rightarrow>
               if status_code response = 200 then
                 (case json_of response of
                    Inl e \<Rightarrow> (Some e, f1)
                  | Inr j \<Rightarrow>
                      let f2 = f1\<lparr>branches_list := j\<rparr> in
                      (case py_len j of
                         Inl e \<Rightarrow> (Some e, f2)
                       | Inr n \<Rightarrow>
                           (None, say (FoundBranches n)
                                    (set_stat ''branches_count'' (JInt (int n)) f2))))
               else if status_code response = 204 then
                 (None,
                  try_alternative_endpoints srv (alternative_endpoints space_id repo_id) 1
                    (set_stat ''branches_count'' (JInt 0) (say NoBranches204 f1)))
               else
                 (None,
                  say BranchesResponseText
                    (say (CouldNotFetchBranchesStatus (status_code response)) f1))))"

definition branches_block :: "service \<Rightarrow> string \<Rightarrow> json \<Rightarrow> json option \<Rightarrow> frame \<Rightarrow> frame" where
  "branches_block srv space_id repo_id repo_data f =
     (case branches_try srv space_id repo_id repo_data f of
        (None, f') \<Rightarrow> f'
      | (Some e, f') \<Rightarrow> say (CouldNotFetchBranches e) f')"

subsection \<open>Tags (lines 277-287)\<close>

definition tags_try :: "service \<Rightarrow> string \<Rightarrow> frame \<Rightarrow> error option \<times> frame" where
  "tags_try srv space_id f =
     (case requests_get srv (api @ space_id @ ''/repos/git/tags'') [] f of
        (Raises, f1) \<Rightarrow> (Some RequestException, f1)
      | (Reply response, f1) \<Rightarrow>
          if status_code response = 200 then
            (case json_of response of
               Inl e \<Rightarrow> (Some e, f1)
             | Inr tags \<Rightarrow>
                 (case py_len tags of
                    Inl e \<Rightarrow> (Some e, f1)
                  | Inr n \<Rightarrow> (None, set_stat ''tags_count'' (JInt (int n)) f1)))
          else if status_code response = 204 then (None, set_stat ''tags_count'' (JInt 0) f1)
          else (None, f1))"

definition tags_block :: "service \<Rightarrow> string \<Rightarrow> frame \<Rightarrow> frame" where
  "tags_block srv space_id f =
     (case tags_try srv space_id f of
        (None, f') \<Rightarrow> f'
      | (Some e, f') \<Rightarrow> say (CouldNotFetchTags e) f')"

subsection \<open>Commits (lines 289-398)\<close>

text \<open>
  Lines 315-318, and again lines 323-325 for a commit already collected: the
  de-duplication key. The nested \<^verbatim>\<open>get\<close> takes the first of \<open>id\<close>, \<open>sha\<close>, \<open>revision\<close>
  that is a key of the payload; when that value is false (or none of them is a key) the
  key is built from the message and a timestamp.
\<close>

definition commit_key :: "json \<Rightarrow> error + json" where
  "commit_key commit =
     (case pyget commit ''revision'' (JStr []) of
        Inl e \<Rightarrow> Inl e
      | Inr d2 \<Rightarrow>
     (case pyget commit ''sha'' d2 of
        Inl e \<Rightarrow> Inl e
      | Inr d1 \<Rightarrow>
     (case pyget commit ''id'' d1 of
        Inl e \<Rightarrow> Inl e
      | Inr commit_id \<Rightarrow>
          if truthy commit_id then Inr commit_id
          else
     (case pyget commit ''message'' (JStr []) of
        Inl e \<Rightarrow> Inl e
      | Inr m \<Rightarrow>
     (case py_slice m 50 of
        Inl e \<Rightarrow> Inl e
      | Inr m50 \<Rightarrow>
     (case pyget commit ''committed_at'' (JStr []) of
        Inl e \<Rightarrow> Inl e
      | Inr d \<Rightarrow>
     (case pyget commit ''authored_at'' d of
        Inl e \<Rightarrow> Inl e
      | Inr t \<Rightarrow> Inr (JStr (py_str m50 @ ''_'' @ py_str t)))))))))"

text \<open>Lines 321-329: is there a collected commit with an equal key?\<close>

fun is_duplicate :: "json \<Rightarrow> json list \<Rightarrow> error + bool" where
  "is_duplicate commit_id [] = Inr False"
| "is_duplicate commit_id (existing_commit # rest) =
     (case commit_key existing_commit of
        Inl e \<Rightarrow> Inl e
      | Inr existing_id \<Rightarrow>
          if py_eq commit_id existing_id then Inr True else is_duplicate commit_id rest)"

text \<open>Line 335: the timestamp of a commit, for tracking the latest one.\<close>

definition commit_date_of :: "json \<Rightarrow> error + json" where
  "commit_date_of commit =
     (case pyget commit ''date'' (JStr []) of
        Inl e \<Rightarrow> Inl e
      | Inr d2 \<Rightarrow>
     (case pyget commit ''committed_at'' d2 of
        Inl e \<Rightarrow> Inl e
      | Inr d1 \<Rightarrow> pyget commit ''authored_at'' d1))"

text \<open>Lines 315-338: one round of the loop over the commits of a branch.\<close>

definition add_commit :: "json \<Rightarrow> frame \<Rightarrow> error option \<times> frame" where
  "add_commit commit f =
     (case commit_key commit of
        Inl e \<Rightarrow> (Some e, f)
      | Inr commit_id \<Rightarrow>
     (case all_commits f of
        JList collected \<Rightarrow>
          (case is_duplicate commit_id collected of
             Inl e \<Rightarrow> (Some e, f)
           | Inr True \<Rightarrow> (None, f)
           | Inr False \<Rightarrow>
               let f1 = f\<lparr>all_commits := JList (collected @ [commit])\<rparr> in
               (case commit_date_of commit of
                  Inl e \<Rightarrow> (Some e, f1)
                | Inr commit_date \<Rightarrow>
                    if \<not> truthy commit_date then (None, f1)
                    else if \<not> truthy (latest_commit_date f1)
                      then (None, f1\<lparr>latest_commit := commit, latest_commit_date := commit_date\<rparr>)
                    else (case py_gt commit_date (latest_commit_date f1) of
                            Inl e \<Rightarrow> (Some e, f1)
                          | Inr True \<Rightarrow>
                              (None, f1\<lparr>latest_commit := commit, latest_commit_date := commit_date\<rparr>)
                          | Inr False \<Rightarrow> (None, f1))))
      | _ \<Rightarrow> (Some AttributeError, f)))"

fun add_commits :: "json list \<Rightarrow> frame \<Rightarrow> error option \<times> frame" where
  "add_commits [] f = (None, f)"
| "add_commits (commit # rest) f =
     (case add_commit commit f of
        (Some e, f') \<Rightarrow> (Some e, f')
      | (None, f') \<Rightarrow> add_commits rest f')"

text \<open>Lines 298-341: the \<^verbatim>\<open>try\<close> block for one branch.\<close>

definition branch_try :: "service \<Rightarrow> string \<Rightarrow> json option \<Rightarrow> json \<Rightarrow> frame \<Rightarrow> error option \<times> frame" where
  "branch_try srv space_id repo_data branch_name f =
     (case url_from_repo_data repo_data ''commits_url'' of
        Inl e \<Rightarrow> (Some e, f)
      | Inr choice \<Rightarrow>
          (case requests_get srv
                  (case choice of Some u \<Rightarrow> u | None \<Rightarrow> api @ space_id @ ''/repos/git/commits'')
                  (if \<not> py_eq branch_name (JStr ''unknown'') then [(''branch'', branch_name)] else [])
                  (say (FetchingCommitsFromBranch branch_name) f) of
             (Raises, f1) \<Rightarrow> (Some RequestException, f1)
           | (Reply response, f1) \<Rightarrow>
               if status_code response = 200 then
                 (case json_of response of
                    Inl e \<Rightarrow> (Some e, f1)
                  | Inr branch_commits \<Rightarrow>
                      (case py_len branch_commits of
                         Inl e \<Rightarrow> (Some e, f1)
                       | Inr n \<Rightarrow>
                           (case py_iter branch_commits of
                              Inl e \<Rightarrow> (Some e, say (FoundCommitsInBranch n branch_name) f1)
                            | Inr commits \<Rightarrow>
                                add_commits commits (say (FoundCommitsInBranch n branch_name) f1))))
               else
                 (None,
                  say (CouldNotFetchCommitsForBranchStatus branch_name (status_code response)) f1)))"

text \<open>
  Lines 295-344: the loop over the branches. Reading the name of a branch (line 296) is
  outside the \<^verbatim>\<open>try\<close>: an entry that is not a dict ends the function with the exception.
\<close>

fun for_branches :: "service \<Rightarrow> string \<Rightarrow> json option \<Rightarrow> json list \<Rightarrow> frame \<Rightarrow> error option \<times> frame" where
  "for_branches srv space_id repo_data [] f = (None, f)"
| "for_branches srv space_id repo_data (branch # rest) f =
     (case pyget branch ''id'' (JStr ''unknown'') of
        Inl e \<Rightarrow> (Some e, f)
      | Inr d \<Rightarrow>
     (case pyget branch ''name'' d of
        Inl e \<Rightarrow> (Some e, f)
      | Inr branch_name \<Rightarrow>
          (case branch_try srv space_id repo_data branch_name f of
             (None, f') \<Rightarrow> for_branches srv space_id repo_data rest f'
           | (Some e, f') \<Rightarrow>
               for_branches srv space_id repo_data rest
                 (say (CouldNotFetchCommitsForBranch branch_name e) f'))))"

definition alternative_commit_endpoints :: "string \<Rightarrow> json \<Rightarrow> string list" where
  "alternative_commit_endpoints space_id repo_id =
     [api @ space_id @ ''/space_tools/'' @ py_str repo_id @ ''/git/commits'',
      api @ space_id @ ''/repos/'' @ py_str repo_id @ ''/git/commits'',
      api @ space_id @ ''/git_repos/'' @ py_str repo_id @ ''/commits'']"

text \<open>Lines 360-361 and 381-382: \<^verbatim>\<open>if all_commits: latest_commit = all_commits[0]\<close>.\<close>

definition take_first_as_latest :: "frame \<Rightarrow> error option \<times> frame" where
  "take_first_as_latest f =
     (if truthy (all_commits f)
      then (case py_first (all_commits f) of
              Inl e \<Rightarrow> (Some e, f)
            | Inr c \<Rightarrow> (None, f\<lparr>latest_commit := c\<rparr>))
      else (None, f))"

text \<open>The loop of lines 372-390, as the one over the branch alternates.\<close>

fun try_alternative_commit_endpoints :: "service \<Rightarrow> string list \<Rightarrow> nat \<Rightarrow> frame \<Rightarrow> frame" where
  "try_alternative_commit_endpoints srv [] i f = f"
| "try_alternative_commit_endpoints srv (alt_url # rest) i f =
     (case requests_get srv alt_url [] (say (TryingAlternativeCommitsEndpoint i) f) of
        (Raises, f1) \<Rightarrow>
          try_alternative_commit_endpoints srv rest (Suc i)
            (say (AlternativeCommitsException i RequestException) f1)
      | (Reply alt_response, f1) \<Rightarrow>
          let f2 = say (AlternativeCommitsEndpointStatus i (status_code alt_response)) f1 in
          if status_code alt_response = 200 then
            (case json_of alt_response of
               Inl e \<Rightarrow>
                 try_alternative_commit_endpoints srv rest (Suc i)
                   (say (AlternativeCommitsException i e) f2)
             | Inr j \<Rightarrow>
                 let f3 = f2\<lparr>all_commits := j\<rparr> in
                 (case py_len j of
                    Inl e \<Rightarrow>
                      try_alternative_commit_endpoints srv rest (Suc i)
                        (say (AlternativeCommitsException i e) f3)
                  | Inr n \<Rightarrow>
                      (case take_first_as_latest (say (AlternativeCommitsSuccess i n) f3) of
                         (Some e, f4) \<Rightarrow>
                           try_alternative_commit_endpoints srv rest (Suc i)
                             (say (AlternativeCommitsException i e) f4)
                       | (None, f4) \<Rightarrow> f4)))
          else if status_code alt_response = 204 then
            try_alternative_commit_endpoints srv rest (Suc i) (say (AlternativeCommits204 i) f2)
          else
            try_alternative_commit_endpoints srv rest (Suc i)
              (say (AlternativeCommitsFailed i (status_code alt_response)) f2))"

text \<open>Lines 347-396: the \<^verbatim>\<open>try\<close> block of the fetch without a branch.\<close>

definition commits_try :: "service \<Rightarrow> string \<Rightarrow> json \<Rightarrow> json option \<Rightarrow> frame \<Rightarrow> error option \<times> frame" where
  "commits_try srv space_id repo_id repo_data f =
     (case url_from_repo_data repo_data ''commits_url'' of
        Inl e \<Rightarrow> (Some e, f)
      | Inr choice \<Rightarrow>
          (case requests_get srv
                  (case choice of Some u \<Rightarrow> u | None \<Rightarrow> api @ space_id @ ''/repos/git/commits'') []
                  (say (case choice of Some u \<Rightarrow> UsingRepositoryCommitsUrl
                        | None \<Rightarrow> UsingDefaultCommitsUrl) f) of
             (Raises, f1) \<Rightarrow> (Some RequestException, f1)
           | (Reply response, f1) \<Rightarrow>
               if status_code response = 200 then
                 (case json_of response of
                    Inl e \<Rightarrow> (Some e, f1)
                  | Inr j \<Rightarrow>
                      let f2 = f1\<lparr>all_commits := j\<rparr> in
                      (case py_len j of
                         Inl e \<Rightarrow> (Some e, f2)
                       | Inr n \<Rightarrow> take_first_as_latest (say (FoundCommitsTotal n) f2)))
               else if status_code response = 422 then
                 (None,
                  try_alternative_commit_endpoints srv
                    (alternative_commit_endpoints space_id repo_id) 1 (say NoCommits422 f1))
               else if status_code response = 204 then (None, say RepositoryHasNoCommits204 f1)
               else
                 (None,
                  say CommitsResponseText
                    (say (CouldNotFetchCommitsStatus (status_code response)) f1))))"

text \<open>
  Lines 294-398. The \<^verbatim>\<open>for\<close> over \<^verbatim>\<open>branches_list\<close> is outside every \<^verbatim>\<open>try\<close>: a value
  that cannot be iterated ends the function with the exception.
\<close>

definition commits_block :: "service \<Rightarrow> string \<Rightarrow> json \<Rightarrow> json option \<Rightarrow> frame \<Rightarrow> error option \<times> frame" where
  "commits_block srv space_id repo_id repo_data f =
     (if truthy (branches_list f) then
        (case py_iter (branches_list f) of
           Inl e \<Rightarrow> (Some e, f)
         | Inr branches \<Rightarrow> for_branches srv space_id repo_data branches f)
      else
        (case commits_try srv space_id repo_id repo_data f of
           (None, f') \<Rightarrow> (None, f')
         | (Some e, f') \<Rightarrow> (None, say (CouldNotFetchCommits e) f')))"

subsection \<open>Final statistics and merge requests (lines 400-437)\<close>

definition stat :: "frame \<Rightarrow> string \<Rightarrow> error + json" where
  "stat f k = (case stats f k of None \<Rightarrow> Inl KeyError | Some v \<Rightarrow> Inr v)"

text \<open>\<^verbatim>\<open>max(1, x)\<close>: the second argument only when it is greater.\<close>

definition py_max1 :: "json \<Rightarrow> error + json" where
  "py_max1 x =
     (case py_gt x (JInt 1) of
        Inl e \<Rightarrow> Inl e
      | Inr True \<Rightarrow> Inr x
      | Inr False \<Rightarrow> Inr (JInt 1))"

text \<open>Lines 405-409: the author of the latest commit.\<close>

definition author_of :: "json \<Rightarrow> error + json" where
  "author_of latest =
     (case pyget latest ''author'' (JObj []) of
        Inl e \<Rightarrow> Inl e
      | Inr author_info \<Rightarrow>
          (case author_info of
             JObj kvs \<Rightarrow>
               (case pyget author_info ''login'' (JStr []) of
                  Inl e \<Rightarrow> Inl e
                | Inr d \<Rightarrow> pyget author_info ''name'' d)
           | _ \<Rightarrow> Inr (JStr (py_str author_info))))"

text \<open>Line 411: the message with line breaks replaced by spaces.\<close>

definition message_of :: "json \<Rightarrow> error + json" where
  "message_of latest =
     (case pyget latest ''message'' (JStr []) of
        Inl e \<Rightarrow> Inl e
      | Inr m \<Rightarrow>
          (case py_replace m [CHR 0x0A] '' '' of
             Inl e \<Rightarrow> Inl e
           | Inr m1 \<Rightarrow> Inr (JStr (replace [CHR 0x0D] '' '' m1))))"

text \<open>Line 412: the timestamp of the latest commit.\<close>

definition authored_at_of :: "json \<Rightarrow> error + json" where
  "authored_at_of latest =
     (case pyget latest ''committed_at'' (JStr []) of
        Inl e \<Rightarrow> Inl e
      | Inr d \<Rightarrow> pyget latest ''authored_at'' d)"

text \<open>
  Line 415, first two conjuncts: the detail record's \<open>last_commit_at\<close> when
  \<^verbatim>\<open>repo_data and repo_data.get('last_commit_at')\<close> is true.
\<close>

definition detail_last_commit_at :: "json option \<Rightarrow> error + json option" where
  "detail_last_commit_at repo_data =
     (case repo_data of
        None \<Rightarrow> Inr None
      | Some rd \<Rightarrow>
          if \<not> truthy rd then Inr None
          else (case pyget rd ''last_commit_at'' JNull of
                  Inl e \<Rightarrow> Inl e
                | Inr v \<Rightarrow> if truthy v then Inr (Some v) else Inr None))"

text \<open>Lines 416-424: the estimate.\<close>

definition estimate :: "json \<Rightarrow> frame \<Rightarrow> error option \<times> frame" where
  "estimate ts f =
     (let f1 = set_stat ''last_commit_at'' ts (say ApiFailedEstimating f) in
      case stat f1 ''branches_count'' of
        Inl e \<Rightarrow> (Some e, f1)
      | Inr bc \<Rightarrow>
          (case py_gt bc (JInt 0) of
             Inl e \<Rightarrow> (Some e, f1)
           | Inr True \<Rightarrow>
               (case py_max1 bc of
                  Inl e \<Rightarrow> (Some e, f1)
                | Inr c \<Rightarrow> (None, say (EstimatedCommits c bc) (set_stat ''commits_count'' c f1)))
           | Inr False \<Rightarrow> (None, say EstimatedOneCommit (set_stat ''commits_count'' (JInt 1) f1))))"

text \<open>Lines 401-424. Nothing here is inside a \<^verbatim>\<open>try\<close>.\<close>

definition final_statistics :: "json option \<Rightarrow> frame \<Rightarrow> error option \<times> frame" where
  "final_statistics repo_data f =
     (case py_len (all_commits f) of
        Inl e \<Rightarrow> (Some e, f)
      | Inr n \<Rightarrow>
          let f1 = set_stat ''commits_count'' (JInt (int n)) f in
          if truthy (latest_commit f1) then
            (case author_of (latest_commit f1) of
               Inl e \<Rightarrow> (Some e, f1)
             | Inr a \<Rightarrow>
                 let f2 = set_stat ''last_commit_author'' a f1 in
                 (case message_of (latest_commit f2) of
                    Inl e \<Rightarrow> (Some e, f2)
                  | Inr m \<Rightarrow>
                      let f3 = set_stat ''last_commit_message'' m f2 in
                      (case authored_at_of (latest_commit f3) of
                         Inl e \<Rightarrow> (Some e, f3)
                       | Inr t \<Rightarrow> (None, set_stat ''last_commit_at'' t f3))))
          else
            (case detail_last_commit_at repo_data of
               Inl e \<Rightarrow> (Some e, f1)
             | Inr None \<Rightarrow> (None, f1)
             | Inr (Some ts) \<Rightarrow>
                 (case stat f1 ''commits_count'' of
                    Inl e \<Rightarrow> (Some e, f1)
                  | Inr c \<Rightarrow> if py_eq c (JInt 0) then estimate ts f1 else (None, f1))))"

text \<open>Lines 426-434.\<close>

definition merge_requests_try :: "service \<Rightarrow> string \<Rightarrow> json \<Rightarrow> frame \<Rightarrow> error option \<times> frame" where
  "merge_requests_try srv space_id repo_id f =
     (case requests_get srv
             (api @ space_id @ ''/space_tools/'' @ py_str repo_id @ ''/merge_requests.json'') [] f of
        (Raises, f1) \<Rightarrow> (Some RequestException, f1)
      | (Reply response, f1) \<Rightarrow>
          if status_code response = 200 then
            (case json_of response of
               Inl e \<Rightarrow> (Some e, f1)
             | Inr merge_requests \<Rightarrow>
                 (case py_len merge_requests of
                    Inl e \<Rightarrow> (Some e, f1)
                  | Inr n \<Rightarrow> (None, set_stat ''merge_requests_count'' (JInt (int n)) f1)))
          else (None, f1))"

definition merge_requests_block :: "service \<Rightarrow> string \<Rightarrow> json \<Rightarrow> frame \<Rightarrow> frame" where
  "merge_requests_block srv space_id repo_id f =
     (case merge_requests_try srv space_id repo_id f of
        (None, f') \<Rightarrow> f'
      | (Some e, f') \<Rightarrow> say (CouldNotFetchMergeRequests e) f')"

text \<open>
  The whole function: the dict it returns, or the exception that leaves it, and the world
  afterwards.
\<close>

definition get_git_repo_statistics ::
  "service \<Rightarrow> string \<Rightarrow> json \<Rightarrow> json option \<Rightarrow> world \<Rightarrow> (error + (string \<rightharpoonup> json)) \<times> world" where
  "get_git_repo_statistics srv space_id repo_id repo_data w =
     (case commits_block srv space_id repo_id repo_data
             (tags_block srv space_id
               (branches_block srv space_id repo_id repo_data (initial_frame w))) of
        (Some e, f) \<Rightarrow> (Inl e, world f)
      | (None, f) \<Rightarrow>
          (case final_statistics repo_data f of
             (Some e, f') \<Rightarrow> (Inl e, world f')
           | (None, f') \<Rightarrow>
               let f'' = say FinalStats (merge_requests_block srv space_id repo_id f')
               in (Inr (stats f''), world f'')))"

section \<open>The repository lister: \<^verbatim>\<open>fetch_assembla_repositories_for_space\<close>\<close>

text \<open>
  A merged repository record is a dict whose values are decoded payloads, except for
  \<open>size_mb\<close>, which \<^verbatim>\<open>round(size_bytes / (1024 * 1024), 2)\<close> makes a float.
  \<open>PyFloat q\<close> is the float that is nearest to the rational \<open>q\<close>.
\<close>

datatype pyval = J json | PyFloat rat

type_synonym repo = "string \<rightharpoonup> pyval"

text \<open>\<^verbatim>\<open>repo.get(k, d)\<close> on a record.\<close>

definition rget :: "repo \<Rightarrow> string \<Rightarrow> pyval \<Rightarrow> pyval" where
  "rget repo k d = (case repo k of None \<Rightarrow> d | Some v \<Rightarrow> v)"

fun pv_truthy :: "pyval \<Rightarrow> bool" where
  "pv_truthy (J j) = truthy j"
| "pv_truthy (PyFloat q) = (q \<noteq> 0)"

text \<open>\<^verbatim>\<open>v == 0\<close>.\<close>

fun pv_is_zero :: "pyval \<Rightarrow> bool" where
  "pv_is_zero (J j) = py_eq j (JInt 0)"
| "pv_is_zero (PyFloat q) = (q = 0)"

text \<open>
  \<^verbatim>\<open>round(x, 2)\<close> on a float rounds its exact value to the nearest multiple of 0.01, a
  tie going to the even one, and returns the float nearest to that.
\<close>

definition round_half_even :: "rat \<Rightarrow> int" where
  "round_half_even x =
     (let k = \<lfloor>x\<rfloor>; d = x - of_int k
      in if d < 1 / 2 then k else if 1 / 2 < d then k + 1 else if even k then k else k + 1)"

definition py_round2 :: "rat \<Rightarrow> rat" where
  "py_round2 x = of_int (round_half_even (x * 100)) / 100"

text \<open>
  \<^verbatim>\<open>n / (1024 * 1024)\<close> on integers is the float nearest to the quotient. The divisor is
  a power of two, so that float is the integer rounded to 53 binary digits (a tie going to
  the even one) and then divided; when it is not below \<open>2 ^ 1024\<close> the division raises
  OverflowError.
\<close>

function bit_length :: "nat \<Rightarrow> nat" where
  "bit_length n = (if n = 0 then 0 else Suc (bit_length (n div 2)))"
  by pat_completeness auto
termination
  by (relation "measure (\<lambda>n. n)") auto

declare bit_length.simps [simp del]

definition round_to_53 :: "nat \<Rightarrow> nat" where
  "round_to_53 n =
     (if bit_length n \<le> 53 then n
      else
        (let s = bit_length n - 53; q = n div 2 ^ s; r = n mod 2 ^ s
         in (if 2 ^ s < 2 * r \<or> (2 * r = 2 ^ s \<and> odd q) then q + 1 else q) * 2 ^ s))"

definition true_divide_mib :: "int \<Rightarrow> error + rat" where
  "true_divide_mib n =
     (let m = round_to_53 (nat \<bar>n\<bar>)
      in if 2 ^ 1044 \<le> m then Inl OverflowError
         else Inr (of_int (sgn n) * of_nat m / (1024 * 1024)))"

text \<open>Lines 112-113.\<close>

definition size_mb_of :: "json \<Rightarrow> error + pyval" where
  "size_mb_of size_bytes =
     (case py_gt size_bytes (JInt 0) of
        Inl e \<Rightarrow> Inl e
      | Inr False \<Rightarrow> Inr (J (JInt 0))
      | Inr True \<Rightarrow>
          (case num_of size_bytes of
             None \<Rightarrow> Inl TypeError
           | Some n \<Rightarrow>
               (case true_divide_mib n of
                  Inl e \<Rightarrow> Inl e
                | Inr x \<Rightarrow> Inr (PyFloat (py_round2 x)))))"

text \<open>
  Line 77: \<^verbatim>\<open>{repo['id']: repo for repo in repos_data}\<close>. The dict is kept as the list of
  its items, the latest first, so that the first item found for a key is the one that
  overwrote the others. A list or a dict cannot be a key.
\<close>

fun hashable :: "json \<Rightarrow> bool" where
  "hashable (JList xs) = False"
| "hashable (JObj kvs) = False"
| "hashable _ = True"

fun make_lookup :: "json list \<Rightarrow> (json \<times> json) list \<Rightarrow> error + (json \<times> json) list" where
  "make_lookup [] acc = Inr acc"
| "make_lookup (repo # rest) acc =
     (case pyitem repo ''id'' of
        Inl e \<Rightarrow> Inl e
      | Inr k \<Rightarrow> if hashable k then make_lookup rest ((k, repo) # acc) else Inl TypeError)"

fun find_key :: "json \<Rightarrow> (json \<times> json) list \<Rightarrow> json option" where
  "find_key k [] = None"
| "find_key k ((k', v) # rest) = (if py_eq k k' then Some v else find_key k rest)"

text \<open>\<^verbatim>\<open>repos_lookup[tool_id]\<close> when \<^verbatim>\<open>tool_id in repos_lookup\<close>, else nothing.\<close>

definition lookup :: "(json \<times> json) list \<Rightarrow> json \<Rightarrow> error + json option" where
  "lookup repos_lookup tool_id =
     (if hashable tool_id then Inr (find_key tool_id repos_lookup) else Inl TypeError)"

definition repo_types :: "string list" where
  "repo_types = [''GitTool'', ''SubversionTool'', ''PerforceDepotTool'']"

text \<open>\<^verbatim>\<open>tool_type in repo_types\<close>.\<close>

definition is_repo_type :: "json \<Rightarrow> bool" where
  "is_repo_type tool_type = (\<exists>t \<in> set repo_types. py_eq tool_type (JStr t))"

text \<open>Lines 98-107.\<close>

definition basic_info :: "string \<Rightarrow> json \<Rightarrow> error + repo" where
  "basic_info space_name tool =
     (case tool of
        JObj kvs \<Rightarrow>
          Inr [''id'' \<mapsto> J (case map_of kvs ''id'' of None \<Rightarrow> JNull | Some v \<Rightarrow> v),
               ''name'' \<mapsto> J (case map_of kvs ''name'' of None \<Rightarrow> JNull | Some v \<Rightarrow> v),
               ''menu_name'' \<mapsto> J (case map_of kvs ''menu_name'' of None \<Rightarrow> JNull | Some v \<Rightarrow> v),
               ''type'' \<mapsto> J (case map_of kvs ''type'' of None \<Rightarrow> JNull | Some v \<Rightarrow> v),
               ''created_at'' \<mapsto> J (case map_of kvs ''created_at'' of None \<Rightarrow> JNull | Some v \<Rightarrow> v),
               ''updated_at'' \<mapsto> J (case map_of kvs ''updated_at'' of None \<Rightarrow> JNull | Some v \<Rightarrow> v),
               ''space_id'' \<mapsto> J (JStr space_name),
               ''space_name'' \<mapsto> J (JStr space_name)]
      | _ \<Rightarrow> Inl AttributeError)"

text \<open>Lines 111-132: the detail record attached to the record.\<close>

definition attach_detail :: "json \<Rightarrow> repo \<Rightarrow> world \<Rightarrow> error + repo \<times> world" where
  "attach_detail repo_data repo_info w =
     (case repo_data of
        JObj kvs \<Rightarrow>
          (let size_bytes = (case map_of kvs ''size'' of None \<Rightarrow> JInt 0 | Some v \<Rightarrow> v);
               field = (\<lambda>k. J (case map_of kvs k of None \<Rightarrow> JNull | Some v \<Rightarrow> v))
           in case size_mb_of size_bytes of
                Inl e \<Rightarrow> Inl e
              | Inr size_mb \<Rightarrow>
                  (let info = repo_info
                         (''size'' \<mapsto> J size_bytes,
                          ''size_mb'' \<mapsto> size_mb,
                          ''last_commit_at'' \<mapsto> field ''last_commit_at'',
                          ''default_branch'' \<mapsto> field ''default_branch'',
                          ''clone_url_https'' \<mapsto> field ''https_clone_url'',
                          ''clone_url_ssh'' \<mapsto> field ''ssh_clone_url'')
                   in if pv_truthy (field ''last_commit_at'')
                      then Inr (info(''is_likely_imported'' \<mapsto> J (JBool True),
                                     ''has_commits_indicator'' \<mapsto> J (JBool True)),
                                print NoteHasLastCommitAt w)
                      else Inr (info(''is_likely_imported'' \<mapsto> J (JBool False),
                                     ''has_commits_indicator'' \<mapsto> J (JBool False)), w)))
      | _ \<Rightarrow> Inl AttributeError)"

text \<open>\<^verbatim>\<open>repo_info.update(repo_stats)\<close>.\<close>

definition update_with :: "repo \<Rightarrow> (string \<rightharpoonup> json) \<Rightarrow> repo" where
  "update_with repo_info repo_stats = repo_info ++ (map_option J \<circ> repo_stats)"

text \<open>Lines 135-142: the statistics of a Git repository, with the \<^verbatim>\<open>try\<close> around them.\<close>

definition add_statistics ::
  "service \<Rightarrow> string \<Rightarrow> (json \<times> json) list \<Rightarrow> json \<Rightarrow> repo \<Rightarrow> world \<Rightarrow> repo \<times> world" where
  "add_statistics srv space_name repos_lookup tool_id repo_info w =
     (case lookup repos_lookup tool_id of
        Inl e \<Rightarrow> (repo_info, print (WarningCouldNotFetchStatistics e) w)
      | Inr repo_data_for_stats \<Rightarrow>
          (case get_git_repo_statistics srv space_name tool_id repo_data_for_stats w of
             (Inl e, w') \<Rightarrow> (repo_info, print (WarningCouldNotFetchStatistics e) w')
           | (Inr repo_stats, w') \<Rightarrow> (update_with repo_info repo_stats, w')))"

text \<open>Lines 93-144: one tool of the listing; \<open>None\<close> when it is not a repository.\<close>

definition process_tool ::
  "service \<Rightarrow> string \<Rightarrow> (json \<times> json) list \<Rightarrow> json \<Rightarrow> world \<Rightarrow> error + repo option \<times> world" where
  "process_tool srv space_name repos_lookup tool w =
     (case pyget tool ''type'' JNull of
        Inl e \<Rightarrow> Inl e
      | Inr tool_type \<Rightarrow>
          if \<not> is_repo_type tool_type then Inr (None, w)
          else
     (case pyget tool ''id'' JNull of
        Inl e \<Rightarrow> Inl e
      | Inr tool_id \<Rightarrow>
     (case basic_info space_name tool of
        Inl e \<Rightarrow> Inl e
      | Inr repo_info \<Rightarrow>
     (case lookup repos_lookup tool_id of
        Inl e \<Rightarrow> Inl e
      | Inr found \<Rightarrow>
     (case (case found of
              None \<Rightarrow> Inr (repo_info, w)
            | Some repo_data \<Rightarrow> attach_detail repo_data repo_info w) of
        Inl e \<Rightarrow> Inl e
      | Inr (repo_info', w') \<Rightarrow>
          if py_eq tool_type (JStr ''GitTool'')
          then (case add_statistics srv space_name repos_lookup tool_id repo_info' w' of
                  (repo_info'', w'') \<Rightarrow> Inr (Some repo_info'', w''))
          else Inr (Some repo_info', w'))))))"

text \<open>
  Lines 92-144: the loop over the listing. An exception leaves the loop, and the world
  stays as the tools before it made it.
\<close>

fun for_tools ::
  "service \<Rightarrow> string \<Rightarrow> (json \<times> json) list \<Rightarrow> json list \<Rightarrow> repo list \<Rightarrow> world \<Rightarrow> (error + repo list) \<times> world" where
  "for_tools srv space_name repos_lookup [] repositories w = (Inr repositories, w)"
| "for_tools srv space_name repos_lookup (tool # rest) repositories w =
     (case process_tool srv space_name repos_lookup tool w of
        Inl e \<Rightarrow> (Inl e, w)
      | Inr (None, w') \<Rightarrow> for_tools srv space_name repos_lookup rest repositories w'
      | Inr (Some repo_info, w') \<Rightarrow>
          for_tools srv space_name repos_lookup rest (repositories @ [repo_info]) w')"

subsection \<open>The reporter (lines 154-196)\<close>

definition is_empty :: "repo \<Rightarrow> bool" where
  "is_empty repo =
     (pv_is_zero (rget repo ''commits_count'' (J (JInt 0))) \<and>
      pv_is_zero (rget repo ''branches_count'' (J (JInt 0))) \<and>
      pv_is_zero (rget repo ''size'' (J (JInt 0))) \<and>
      \<not> pv_truthy (rget repo ''last_commit_at'' (J JNull)) \<and>
      \<not> pv_truthy (rget repo ''has_commits_indicator'' (J (JBool False))))"

text \<open>Lines 162 and 468.\<close>

definition is_imported :: "repo \<Rightarrow> pyval" where
  "is_imported repo = rget repo ''is_likely_imported'' (J (JBool False))"

definition status_indicator :: "repo \<Rightarrow> string" where
  "status_indicator repo =
     (if is_empty repo then '' [EMPTY REPOSITORY]''
      else if pv_truthy (is_imported repo) then '' [IMPORTED REPOSITORY]''
      else [])"

text \<open>
  The loop that prints the records; the lines of one record are one message here, with
  the number of the record and its status.
\<close>

fun display :: "repo list \<Rightarrow> nat \<Rightarrow> world \<Rightarrow> world" where
  "display [] i w = w"
| "display (repo # rest) i w = display rest (Suc i) (print (RepositoryReport i (status_indicator repo)) w)"

subsection \<open>The function\<close>

text \<open>\<^verbatim>\<open>response.raise_for_status()\<close>.\<close>

definition raise_for_status :: "response \<Rightarrow> error option" where
  "raise_for_status resp =
     (if 400 \<le> status_code resp \<and> status_code resp < 600 then Some HTTPError else None)"

text \<open>A listing: the request, \<^verbatim>\<open>raise_for_status\<close>, \<^verbatim>\<open>json\<close> (lines 71-74 and 83-86).\<close>

definition fetch_listing :: "service \<Rightarrow> string \<Rightarrow> world \<Rightarrow> (error + json) \<times> world" where
  "fetch_listing srv u w =
     (case http_get srv u [] w of
        (Raises, w') \<Rightarrow> (Inl RequestException, w')
      | (Reply resp, w') \<Rightarrow>
          (case raise_for_status resp of
             Some e \<Rightarrow> (Inl e, w')
           | None \<Rightarrow> (json_of resp, w')))"

text \<open>Lines 66-198: the body of the \<^verbatim>\<open>try\<close>, with the value it returns.\<close>

definition lister_try :: "service \<Rightarrow> string \<Rightarrow> world \<Rightarrow> (error + repo list option) \<times> world" where
  "lister_try srv space_name w =
     (case fetch_listing srv (api @ space_name @ ''/repos.json'') (print FetchingRepositoryDetails w) of
        (Inl e, w1) \<Rightarrow> (Inl e, w1)
      | (Inr repos_data, w1) \<Rightarrow>
     (case py_iter repos_data of
        Inl e \<Rightarrow> (Inl e, w1)
      | Inr repos \<Rightarrow>
     (case make_lookup repos [] of
        Inl e \<Rightarrow> (Inl e, w1)
      | Inr repos_lookup \<Rightarrow>
     (case fetch_listing srv (api @ space_name @ ''/space_tools.json'') (print FetchingSpaceTools w1) of
        (Inl e, w2) \<Rightarrow> (Inl e, w2)
      | (Inr space_tools, w2) \<Rightarrow>
     (case py_iter space_tools of
        Inl e \<Rightarrow> (Inl e, w2)
      | Inr tools \<Rightarrow>
     (case for_tools srv space_name repos_lookup tools [] w2 of
        (Inl e, w3) \<Rightarrow> (Inl e, w3)
      | (Inr repositories, w3) \<Rightarrow>
          if repositories = [] then (Inr None, print NoRepositoriesFoundInSpace w3)
          else (Inr (Some repositories),
                display repositories 1 (print Ruler (print (FoundRepositories (length repositories)) w3)))))))))"

text \<open>
  The handlers of lines 200-208 print one line and return \<^verbatim>\<open>None\<close>. The exception that
  \<^verbatim>\<open>response.json()\<close> raises on a body that is not JSON is a RequestException (requests
  2.27 and later), as the HTTPError of \<^verbatim>\<open>raise_for_status\<close> is: the handler of line 200
  takes them, and the handler of line 203 is never reached.
\<close>

definition handler_message :: "error \<Rightarrow> msg" where
  "handler_message e =
     (if e = RequestException \<or> e = HTTPError \<or> e = JSONDecodeError then ApiRequestError
      else UnexpectedError e)"

text \<open>
  The credentials are the two variables of the environment; one that is missing or empty
  ends the function at once (lines 48-54).
\<close>

definition fetch_assembla_repositories_for_space ::
  "(string \<rightharpoonup> string) \<Rightarrow> service \<Rightarrow> string \<Rightarrow> world \<Rightarrow> repo list option \<times> world" where
  "fetch_assembla_repositories_for_space getenv srv space_name w =
     (if getenv ''x-api-key'' \<in> {None, Some []} \<or> getenv ''x-api-secret'' \<in> {None, Some []}
      then (None, print EnsureEnvFile (print MissingCredentials w))
      else
        (case lister_try srv space_name (print Ruler (print (ProcessingSpace space_name) w)) of
           (Inl e, w') \<Rightarrow> (None, print (handler_message e) w')
         | (Inr r, w') \<Rightarrow> (r, w')))"

section \<open>The exporter: \<^verbatim>\<open>save_repositories_to_csv\<close>\<close>

text \<open>Lines 462-466: the flag, computed again.\<close>

definition is_empty_csv :: "repo \<Rightarrow> bool" where
  "is_empty_csv repo =
     (pv_is_zero (rget repo ''commits_count'' (J (JInt 0))) \<and>
      pv_is_zero (rget repo ''branches_count'' (J (JInt 0))) \<and>
      pv_is_zero (rget repo ''size'' (J (JInt 0))) \<and>
      \<not> pv_truthy (rget repo ''last_commit_at'' (J JNull)) \<and>
      \<not> pv_truthy (rget repo ''has_commits_indicator'' (J (JBool False))))"

text \<open>Line 486: the cell of the column \<open>Is_Empty\<close>.\<close>

definition is_empty_cell :: "repo \<Rightarrow> string" where
  "is_empty_cell repo =
     (if is_empty_csv repo then ''True''
      else if pv_truthy (is_imported repo) then ''Imported''
      else ''False'')"

text \<open>Lines 470-491: the row of a record, a missing field being the empty string.\<close>

definition csv_row :: "repo \<Rightarrow> pyval list" where
  "csv_row repo =
     [rget repo ''space_name'' (J (JStr [])),
      rget repo ''id'' (J (JStr [])),
      rget repo ''name'' (J (JStr [])),
      rget repo ''menu_name'' (J (JStr [])),
      rget repo ''type'' (J (JStr [])),
      rget repo ''created_at'' (J (JStr [])),
      rget repo ''updated_at'' (J (JStr [])),
      rget repo ''size'' (J (JStr [])),
      rget repo ''size_mb'' (J (JStr [])),
      rget repo ''default_branch'' (J (JStr [])),
      rget repo ''last_commit_at'' (J (JStr [])),
      rget repo ''commits_count'' (J (JStr [])),
      rget repo ''branches_count'' (J (JStr [])),
      rget repo ''tags_count'' (J (JStr [])),
      rget repo ''merge_requests_count'' (J (JStr [])),
      J (JStr (is_empty_cell repo)),
      rget repo ''last_commit_author'' (J (JStr [])),
      rget repo ''last_commit_message'' (J (JStr [])),
      rget repo ''clone_url_https'' (J (JStr [])),
      rget repo ''clone_url_ssh'' (J (JStr []))]"

section \<open>The run over the spaces: \<^verbatim>\<open>fetch_all_repositories\<close>\<close>

text \<open>Lines 511-519, over the spaces that the space list gave.\<close>

fun for_spaces ::
  "(string \<rightharpoonup> string) \<Rightarrow> service \<Rightarrow> string list \<Rightarrow> repo list \<Rightarrow> world \<Rightarrow> repo list \<times> world" where
  "for_spaces getenv srv [] all_repositories w = (all_repositories, w)"
| "for_spaces getenv srv (space_name # rest) all_repositories w =
     (case fetch_assembla_repositories_for_space getenv srv space_name
             (print (FetchingRepositoriesForSpace space_name) w) of
        (None, w') \<Rightarrow>
          for_spaces getenv srv rest all_repositories (print (NoRepositoriesOrError space_name) w')
      | (Some repositories, w') \<Rightarrow>
          if repositories = []
          then for_spaces getenv srv rest all_repositories (print (NoRepositoriesOrError space_name) w')
          else for_spaces getenv srv rest (all_repositories @ repositories)
                 (print (FoundRepositoriesInSpace (length repositories) space_name) w'))"

definition fetch_all_repositories ::
  "(string \<rightharpoonup> string) \<Rightarrow> service \<Rightarrow> string list \<Rightarrow> world \<Rightarrow> repo list option \<times> world" where
  "fetch_all_repositories getenv srv spaces w =
     (if spaces = [] then (None, w)
      else (case for_spaces getenv srv spaces [] w of (all_repositories, w') \<Rightarrow> (Some all_repositories, w')))"

section \<open>Notions and examples for the statements\<close>

text \<open>
  The last-commit timestamp of a record is absent when the record has no such entry or the
  entry is \<^verbatim>\<open>None\<close> or the empty string.
\<close>

definition timestamp_absent :: "repo \<Rightarrow> bool" where
  "timestamp_absent repo = (repo ''last_commit_at'' \<in> {None, Some (J JNull), Some (J (JStr []))})"

text \<open>A record of a Git repository without a detail record, in which nothing was found.\<close>

definition example_empty_repo :: repo where
  "example_empty_repo =
     [''id'' \<mapsto> J (JStr ''r1''),
      ''commits_count'' \<mapsto> J (JInt 0),
      ''branches_count'' \<mapsto> J (JInt 0),
      ''last_commit_at'' \<mapsto> J (JStr [])]"

text \<open>The \<open>size_mb\<close> entry that attaching a detail record to an empty record makes.\<close>

definition attached_size_mb :: "json \<Rightarrow> pyval option" where
  "attached_size_mb repo_data =
     (case attach_detail repo_data Map.empty \<lparr>requests = [], console = []\<rparr> of
        Inl e \<Rightarrow> None
      | Inr (info, w) \<Rightarrow> info ''size_mb'')"

text \<open>A world in which nothing has happened yet.\<close>

definition start :: world where
  "start = \<lparr>requests = [], console = []\<rparr>"

text \<open>An entry of the dict that the enricher returned, if it returned one.\<close>

definition stat_of :: "(error + (string \<rightharpoonup> json)) \<times> world \<Rightarrow> string \<Rightarrow> json option" where
  "stat_of r k = (case fst r of Inl e \<Rightarrow> None | Inr d \<Rightarrow> d k)"

text \<open>
  A service that answers the tags request with status 500 and the merge-requests request
  with status 404, and everything else with status 200 and an empty list.
\<close>

definition tags_fail_service :: service where
  "tags_fail_service n rq =
     (if url rq = ''https://in-api.assembla.com/v1/spaces/demo/repos/git/tags''
      then Reply \<lparr>status_code = 500, body = None\<rparr>
      else if url rq = ''https://in-api.assembla.com/v1/spaces/demo/space_tools/r1/merge_requests.json''
      then Reply \<lparr>status_code = 404, body = None\<rparr>
      else Reply \<lparr>status_code = 200, body = Some (JList [])\<rparr>)"

text \<open>The request for an alternate URL: no parameters.\<close>

definition alt_request :: "string \<Rightarrow> request" where
  "alt_request u = \<lparr>url = u, params = []\<rparr>"

text \<open>
  What ends the loop over the branch alternates: an answer with status 200 whose body
  decodes to a value that has a length.
\<close>

definition branch_alternate_succeeds :: "reply \<Rightarrow> bool" where
  "branch_alternate_succeeds r =
     (case r of
        Raises \<Rightarrow> False
      | Reply resp \<Rightarrow>
          status_code resp = 200 \<and>
          (case body resp of
             None \<Rightarrow> False
           | Some j \<Rightarrow> (case py_len j of Inl e \<Rightarrow> False | Inr n \<Rightarrow> True)))"

text \<open>
  What ends the loop over the commit alternates: the same, and the value is empty or its
  first element can be taken.
\<close>

definition commit_alternate_succeeds :: "reply \<Rightarrow> bool" where
  "commit_alternate_succeeds r =
     (case r of
        Raises \<Rightarrow> False
      | Reply resp \<Rightarrow>
          status_code resp = 200 \<and>
          (case body resp of
             None \<Rightarrow> False
           | Some j \<Rightarrow>
               (case py_len j of
                  Inl e \<Rightarrow> False
                | Inr n \<Rightarrow> \<not> truthy j \<or> (case py_first j of Inl e \<Rightarrow> False | Inr c \<Rightarrow> True))))"

text \<open>
  How many alternates are requested, when the first of them is request number \<open>n\<close> of the
  run: all up to and including the first that succeeds.
\<close>

fun alternates_tried :: "(reply \<Rightarrow> bool) \<Rightarrow> service \<Rightarrow> nat \<Rightarrow> string list \<Rightarrow> nat" where
  "alternates_tried ok srv n [] = 0"
| "alternates_tried ok srv n (u # us) =
     (if ok (srv n (alt_request u)) then 1 else Suc (alternates_tried ok srv (Suc n) us))"

text \<open>
  The outcome of a chain over \<open>urls\<close>, from the requests before it to the requests after
  it: the first \<open>k\<close> alternates were requested, in order; none of them succeeded except
  possibly the last; and alternates are left over only when the last one requested
  succeeded.
\<close>

definition chain_outcome :: "(reply \<Rightarrow> bool) \<Rightarrow> service \<Rightarrow> string list \<Rightarrow> request list \<Rightarrow> request list \<Rightarrow> bool" where
  "chain_outcome ok srv urls before after =
     (\<exists>k\<le>length urls.
        after = before @ map alt_request (take k urls) \<and>
        (\<forall>j<k. ok (srv (length before + j) (alt_request (urls ! j))) \<longrightarrow> Suc j = k) \<and>
        (k < length urls \<longrightarrow> 0 < k \<and> ok (srv (length before + (k - 1)) (alt_request (urls ! (k - 1))))))"

text \<open>
  The exception that the answer to a branch alternate raises inside the \<^verbatim>\<open>try\<close> of lines
  254-270: the request itself, the decoding of a body with status 200, or the length of
  the decoded value.
\<close>

definition branch_alternate_raises :: "reply \<Rightarrow> error option" where
  "branch_alternate_raises r =
     (case r of
        Raises \<Rightarrow> Some RequestException
      | Reply resp \<Rightarrow>
          if status_code resp = 200
          then (case body resp of
                  None \<Rightarrow> Some JSONDecodeError
                | Some j \<Rightarrow> (case py_len j of Inl e \<Rightarrow> Some e | Inr n \<Rightarrow> None))
          else None)"

text \<open>The same for a commit alternate (lines 373-390), where the first element is taken too.\<close>

definition commit_alternate_raises :: "reply \<Rightarrow> error option" where
  "commit_alternate_raises r =
     (case r of
        Raises \<Rightarrow> Some RequestException
      | Reply resp \<Rightarrow>
          if status_code resp = 200
          then (case body resp of
                  None \<Rightarrow> Some JSONDecodeError
                | Some j \<Rightarrow>
                    (case py_len j of
                       Inl e \<Rightarrow> Some e
                     | Inr n \<Rightarrow>
                         if truthy j
                         then (case py_first j of Inl e \<Rightarrow> Some e | Inr c \<Rightarrow> None)
                         else None))
          else None)"

text \<open>
  A chain reports its exceptions: for every alternate that was requested and whose answer
  raised, the console holds the line with the number of the alternate and the exception.
\<close>

definition chain_reports ::
  "(reply \<Rightarrow> error option) \<Rightarrow> (nat \<Rightarrow> error \<Rightarrow> msg) \<Rightarrow> service \<Rightarrow> string list \<Rightarrow> nat \<Rightarrow>
   request list \<Rightarrow> request list \<Rightarrow> msg list \<Rightarrow> bool" where
  "chain_reports raises report srv urls i before after out =
     (\<forall>j < length after - length before.
        case raises (srv (length before + j) (alt_request (urls ! j))) of
          None \<Rightarrow> True
        | Some e \<Rightarrow> report (i + j) e \<in> set out)"

text \<open>
  A service that has no branches at the canonical URL (status 204), answers the first
  branch alternate with status 200 and a body that is not JSON, and everything else with
  status 200 and an empty list.
\<close>

definition not_json_service :: service where
  "not_json_service n rq =
     (if url rq = ''https://in-api.assembla.com/v1/spaces/demo/repos/git/branches''
      then Reply \<lparr>status_code = 204, body = None\<rparr>
      else if url rq = ''https://in-api.assembla.com/v1/spaces/demo/space_tools/r1/git/branches''
      then Reply \<lparr>status_code = 200, body = None\<rparr>
      else Reply \<lparr>status_code = 200, body = Some (JList [])\<rparr>)"












text \<open>From one frame to another, at most the count \<open>k\<close> of the statistics was set, to a natural number.\<close>

definition sets_count :: "string \<Rightarrow> frame \<Rightarrow> frame \<Rightarrow> bool" where
  "sets_count k f f' = (stats f' = stats f \<or> (\<exists>n::nat. stats f' = (stats f)(k \<mapsto> JInt (int n))))"

text \<open>The commit has a timestamp for line 336: \<open>authored_at\<close>, else \<open>committed_at\<close>, else \<open>date\<close>, and it is true.\<close>

definition dated :: "json \<Rightarrow> bool" where
  "dated c = (case commit_date_of c of Inl e \<Rightarrow> False | Inr d \<Rightarrow> truthy d)"


text \<open>
  The per-branch path: the aggregate is a list of payloads with the property \<open>P\<close>, and the latest
  commit, once there is one, is an entry of it with a timestamp.
\<close>

definition tracked :: "(json \<Rightarrow> bool) \<Rightarrow> frame \<Rightarrow> bool" where
  "tracked P f =
     (\<exists>cs. all_commits f = JList cs \<and> (\<forall>c\<in>set cs. P c) \<and>
        (latest_commit f = JNull \<or> (latest_commit f \<in> set cs \<and> dated (latest_commit f))))"














text \<open>A record with a detail record that has a timestamp, in which nothing else was found.\<close>

definition example_imported_repo :: repo where
  "example_imported_repo =
     [''id'' \<mapsto> J (JStr ''r2''),
      ''size'' \<mapsto> J (JInt 0),
      ''commits_count'' \<mapsto> J (JInt 0),
      ''branches_count'' \<mapsto> J (JInt 0),
      ''last_commit_at'' \<mapsto> J (JStr ''2024-01-01''),
      ''is_likely_imported'' \<mapsto> J (JBool True),
      ''has_commits_indicator'' \<mapsto> J (JBool True)]"

section \<open>The flag \<open>is_empty\<close>\<close>

text \<open>
  C1. For a record whose commit count, branch count and size are integers (a missing
  entry counting as 0), whose commits indicator is a boolean (missing: false) and whose
  last-commit timestamp is a string, \<^verbatim>\<open>None\<close> or missing: \<open>is_empty\<close> holds exactly when
  the commit count is 0, the branch count is 0, the size is 0, the timestamp is absent
  and the indicator is false. The exporter computes the same flag as the reporter.
  Making any one of the five entries non-zero, non-empty or true makes the flag false.
\<close>

theorem is_empty_iff:
  assumes "rget repo ''commits_count'' (J (JInt 0)) = J (JInt c)"
    and "rget repo ''branches_count'' (J (JInt 0)) = J (JInt b)"
    and "rget repo ''size'' (J (JInt 0)) = J (JInt s)"
    and "rget repo ''has_commits_indicator'' (J (JBool False)) = J (JBool h)"
    and "repo ''last_commit_at'' \<in> {None, Some (J JNull)} \<union> range (\<lambda>t. Some (J (JStr t)))"
  shows "(is_empty repo \<longleftrightarrow> c = 0 \<and> b = 0 \<and> s = 0 \<and> timestamp_absent repo \<and> \<not> h) \<and>
         is_empty_csv repo = is_empty repo \<and>
         (c' \<noteq> 0 \<longrightarrow> \<not> is_empty (repo(''commits_count'' \<mapsto> J (JInt c')))) \<and>
         (b' \<noteq> 0 \<longrightarrow> \<not> is_empty (repo(''branches_count'' \<mapsto> J (JInt b')))) \<and>
         (s' \<noteq> 0 \<longrightarrow> \<not> is_empty (repo(''size'' \<mapsto> J (JInt s')))) \<and>
         (t' \<noteq> [] \<longrightarrow> \<not> is_empty (repo(''last_commit_at'' \<mapsto> J (JStr t')))) \<and>
         \<not> is_empty (repo(''has_commits_indicator'' \<mapsto> J (JBool True)))"
proof -
  have ts: "\<not> pv_truthy (rget repo ''last_commit_at'' (J JNull)) \<longleftrightarrow> timestamp_absent repo"
    using assms(5) by (auto simp: rget_def timestamp_absent_def)
  have main: "is_empty repo \<longleftrightarrow> c = 0 \<and> b = 0 \<and> s = 0 \<and> timestamp_absent repo \<and> \<not> h"
    unfolding is_empty_def ts using assms(1-4) by simp
  have same: "is_empty_csv repo = is_empty repo"
    by (simp add: is_empty_csv_def is_empty_def)
  have flips: "(c' \<noteq> 0 \<longrightarrow> \<not> is_empty (repo(''commits_count'' \<mapsto> J (JInt c')))) \<and>
         (b' \<noteq> 0 \<longrightarrow> \<not> is_empty (repo(''branches_count'' \<mapsto> J (JInt b')))) \<and>
         (s' \<noteq> 0 \<longrightarrow> \<not> is_empty (repo(''size'' \<mapsto> J (JInt s')))) \<and>
         (t' \<noteq> [] \<longrightarrow> \<not> is_empty (repo(''last_commit_at'' \<mapsto> J (JStr t')))) \<and>
         \<not> is_empty (repo(''has_commits_indicator'' \<mapsto> J (JBool True)))"
    by (simp add: is_empty_def rget_def)
  from main same flips show ?thesis by blast
qed

theorem is_empty_iff_witness:
  "rget example_empty_repo ''commits_count'' (J (JInt 0)) = J (JInt 0) \<and>
   rget example_empty_repo ''branches_count'' (J (JInt 0)) = J (JInt 0) \<and>
   rget example_empty_repo ''size'' (J (JInt 0)) = J (JInt 0) \<and>
   rget example_empty_repo ''has_commits_indicator'' (J (JBool False)) = J (JBool False) \<and>
   example_empty_repo ''last_commit_at'' = Some (J (JStr [])) \<and>
   is_empty example_empty_repo \<and>
   is_empty_csv example_empty_repo \<and>
   \<not> is_empty (example_empty_repo(''commits_count'' \<mapsto> J (JInt 2))) \<and>
   \<not> is_empty (example_empty_repo(''branches_count'' \<mapsto> J (JInt 1))) \<and>
   \<not> is_empty (example_empty_repo(''size'' \<mapsto> J (JInt 4096))) \<and>
   \<not> is_empty (example_empty_repo(''last_commit_at'' \<mapsto> J (JStr ''2024-01-01''))) \<and>
   \<not> is_empty (example_empty_repo(''has_commits_indicator'' \<mapsto> J (JBool True)))"
proof -
  have h1: "rget example_empty_repo ''commits_count'' (J (JInt 0)) = J (JInt 0)"
    and h2: "rget example_empty_repo ''branches_count'' (J (JInt 0)) = J (JInt 0)"
    and h3: "rget example_empty_repo ''size'' (J (JInt 0)) = J (JInt 0)"
    and h4: "rget example_empty_repo ''has_commits_indicator'' (J (JBool False)) = J (JBool False)"
    and h5: "example_empty_repo ''last_commit_at'' = Some (J (JStr []))"
    by (simp_all add: example_empty_repo_def rget_def)
  have h5': "example_empty_repo ''last_commit_at'' \<in> {None, Some (J JNull)} \<union> range (\<lambda>t. Some (J (JStr t)))"
    using h5 by simp
  have abs: "timestamp_absent example_empty_repo"
    by (simp add: timestamp_absent_def h5)
  show ?thesis
    using is_empty_iff [OF h1 h2 h3 h4 h5', of 2 1 4096 "''2024-01-01''"] h1 h2 h3 h4 h5 abs
    by simp
qed

section \<open>The size in megabytes\<close>



text \<open>
  The float quotient. \<open>bit_length\<close> is the number of binary digits; an integer of at most 53
  digits is a float, and rounding to 53 digits moves an integer by at most the fraction
  \<open>1 / 2 ^ 53\<close> of itself.
\<close>

lemma bit_length_zero: "bit_length 0 = 0"
  by (simp add: bit_length.simps)

lemma bit_length_pos: "0 < n \<Longrightarrow> bit_length n = Suc (bit_length (n div 2))"
  by (subst bit_length.simps) simp

lemma bit_length_bounds:
  "0 < n \<Longrightarrow> 2 ^ (bit_length n - 1) \<le> n \<and> n < 2 ^ bit_length n"
proof (induction n rule: bit_length.induct)
  case (1 n)
  show ?case
  proof (cases "n div 2 = 0")
    case True
    with 1(2) have n: "n = 1" by (cases n) auto
    have "bit_length 1 = 1"
      by (simp add: bit_length_pos bit_length_zero)
    then show ?thesis using n by simp
  next
    case False
    then have p: "0 < n div 2" by simp
    from 1(1) [OF _ p] 1(2)
    have ih: "2 ^ (bit_length (n div 2) - 1) \<le> n div 2" "n div 2 < 2 ^ bit_length (n div 2)"
      by auto
    have bl: "bit_length n = Suc (bit_length (n div 2))"
      using 1(2) by (rule bit_length_pos)
    have pos: "0 < bit_length (n div 2)"
      using bit_length_pos [OF p] by simp
    then obtain b where b: "bit_length (n div 2) = Suc b"
      by (cases "bit_length (n div 2)") auto
    from ih b have "2 * 2 ^ b \<le> 2 * (n div 2)" by simp
    also have "\<dots> \<le> n" by simp
    finally have lo: "2 ^ (bit_length n - 1) \<le> n" by (simp add: bl b)
    from ih(2) have "n div 2 + 1 \<le> 2 ^ bit_length (n div 2)" by simp
    then have "2 * (n div 2) + 2 \<le> 2 * 2 ^ bit_length (n div 2)" by simp
    moreover have "n \<le> 2 * (n div 2) + 1" by presburger
    ultimately have hi: "n < 2 ^ bit_length n" by (simp add: bl)
    from lo hi show ?thesis by simp
  qed
qed












text \<open>
  From \<open>2 ^ 53\<close> bytes on the float quotient need not be the exact one: at
  \<open>2 ^ 53 + 15729\<close> bytes the entry is 8589934592.01, and the exact quotient rounded to
  two decimals is 8589934592.02.
\<close>

lemma bit_length_eq: "2 ^ k \<le> n \<Longrightarrow> n < 2 ^ Suc k \<Longrightarrow> bit_length n = Suc k"
proof -
  assume a: "2 ^ k \<le> n" and b: "n < 2 ^ Suc k"
  from a have pos: "0 < n" by (cases "n = 0") auto
  have c: "2 ^ (bit_length n - 1) \<le> n" "n < 2 ^ bit_length n"
    using bit_length_bounds [OF pos] by simp_all
  from c(1) b have "(2::nat) ^ (bit_length n - 1) < 2 ^ Suc k" by (rule le_less_trans)
  then have "bit_length n - 1 < Suc k"
    by (simp only: power_strict_increasing_iff one_less_numeral_iff semiring_norm)
  moreover from a c(2) have "(2::nat) ^ k < 2 ^ bit_length n" by (rule le_less_trans)
  then have "k < bit_length n"
    by (simp only: power_strict_increasing_iff one_less_numeral_iff semiring_norm)
  ultimately show ?thesis by simp
qed

lemma bit_length_example: "bit_length 9007199254756721 = 54"
proof -
  have "bit_length 9007199254756721 = Suc 53"
    by (rule bit_length_eq) simp_all
  then show ?thesis by simp
qed

lemma round_to_53_example: "round_to_53 9007199254756721 = 9007199254756720"
  by (simp add: round_to_53_def bit_length_example Let_def)

lemma size_mb_beyond_53_bits:
  "attached_size_mb (JObj [(''id'', JStr ''r1''), (''size'', JInt 9007199254756721)])
     = Some (PyFloat (858993459201 / 100)) \<and>
   py_round2 (9007199254756721 / 1048576) = 858993459202 / 100"
proof -
  have t: "true_divide_mib 9007199254756721 = Inr (9007199254756720 / 1048576)"
    by (simp add: true_divide_mib_def round_to_53_example Let_def)
  have p: "py_round2 (562949953422295 / 65536) = 858993459201 / 100"
    by code_simp
  have q: "py_round2 (9007199254756721 / 1048576) = 858993459202 / 100"
    by code_simp
  have s: "size_mb_of (JInt 9007199254756721) = Inr (PyFloat (858993459201 / 100))"
    by (simp add: size_mb_of_def t p)
  have "attached_size_mb (JObj [(''id'', JStr ''r1''), (''size'', JInt 9007199254756721)])
     = Some (PyFloat (858993459201 / 100))"
    by (simp add: attached_size_mb_def attach_detail_def s Let_def)
  with q show ?thesis by simp
qed


section \<open>The column \<open>Is_Empty\<close>\<close>

lemma is_empty_csv_entries:
  assumes "rget repo ''commits_count'' (J (JInt 0)) = J (JInt c)"
    and "rget repo ''branches_count'' (J (JInt 0)) = J (JInt b)"
    and "rget repo ''size'' (J (JInt 0)) = J (JInt s)"
    and "rget repo ''has_commits_indicator'' (J (JBool False)) = J (JBool h)"
    and "repo ''last_commit_at'' \<in> {None, Some (J JNull)} \<union> range (\<lambda>t. Some (J (JStr t)))"
  shows "is_empty_csv repo \<longleftrightarrow> c = 0 \<and> b = 0 \<and> s = 0 \<and> timestamp_absent repo \<and> \<not> h"
proof -
  have ts: "\<not> pv_truthy (rget repo ''last_commit_at'' (J JNull)) \<longleftrightarrow> timestamp_absent repo"
    using assms(5) by (auto simp: rget_def timestamp_absent_def)
  show ?thesis
    unfolding is_empty_csv_def ts using assms(1-4) by simp
qed

text \<open>
  C8. Take a record whose commit count, branch count and size are integers (a missing entry
  counting as 0), whose commits indicator is a boolean (missing: false), whose last-commit
  timestamp is a string, \<^verbatim>\<open>None\<close> or missing, and whose entry \<open>is_likely_imported\<close> is a
  boolean or missing. Its row has 20 cells, and the sixteenth is one of the strings \<open>True\<close>,
  \<open>Imported\<close> and \<open>False\<close>. It is \<open>True\<close> exactly when the record is flagged empty, that is
  when the commit count, the branch count and the size are 0, the timestamp is absent and
  the indicator is false; \<open>Imported\<close> exactly when the entry \<open>is_likely_imported\<close> of the
  record is true and the record is not flagged empty; \<open>False\<close> exactly when the entry is
  false or missing and the record is not flagged empty. So the empty flag goes first.
\<close>

theorem is_empty_column:
  assumes "rget repo ''commits_count'' (J (JInt 0)) = J (JInt c)"
    and "rget repo ''branches_count'' (J (JInt 0)) = J (JInt b)"
    and "rget repo ''size'' (J (JInt 0)) = J (JInt s)"
    and "rget repo ''has_commits_indicator'' (J (JBool False)) = J (JBool h)"
    and "repo ''last_commit_at'' \<in> {None, Some (J JNull)} \<union> range (\<lambda>t. Some (J (JStr t)))"
    and "repo ''is_likely_imported'' \<in> {None, Some (J (JBool False)), Some (J (JBool True))}"
  shows "length (csv_row repo) = 20 \<and>
         (\<exists>cell. csv_row repo ! 15 = J (JStr cell) \<and>
            cell \<in> {''True'', ''Imported'', ''False''} \<and>
            (cell = ''True'' \<longleftrightarrow> is_empty repo) \<and>
            (cell = ''True'' \<longleftrightarrow> c = 0 \<and> b = 0 \<and> s = 0 \<and> timestamp_absent repo \<and> \<not> h) \<and>
            (cell = ''Imported'' \<longleftrightarrow>
               repo ''is_likely_imported'' = Some (J (JBool True)) \<and>
               \<not> (c = 0 \<and> b = 0 \<and> s = 0 \<and> timestamp_absent repo \<and> \<not> h)) \<and>
            (cell = ''False'' \<longleftrightarrow>
               repo ''is_likely_imported'' \<noteq> Some (J (JBool True)) \<and>
               \<not> (c = 0 \<and> b = 0 \<and> s = 0 \<and> timestamp_absent repo \<and> \<not> h)))"
proof -
  let ?E = "c = 0 \<and> b = 0 \<and> s = 0 \<and> timestamp_absent repo \<and> \<not> h"
  have e: "is_empty_csv repo \<longleftrightarrow> ?E"
    using assms(1-5) by (rule is_empty_csv_entries)
  have same: "is_empty repo = is_empty_csv repo"
    by (simp add: is_empty_csv_def is_empty_def)
  have imp: "pv_truthy (is_imported repo) \<longleftrightarrow> repo ''is_likely_imported'' = Some (J (JBool True))"
    using assms(6) by (auto simp: is_imported_def rget_def)
  have len: "length (csv_row repo) = 20"
    by (simp add: csv_row_def)
  have cell: "csv_row repo ! 15 = J (JStr (is_empty_cell repo))"
    by (simp add: csv_row_def)
  have "is_empty_cell repo \<in> {''True'', ''Imported'', ''False''} \<and>
        (is_empty_cell repo = ''True'' \<longleftrightarrow> is_empty repo) \<and>
        (is_empty_cell repo = ''True'' \<longleftrightarrow> ?E) \<and>
        (is_empty_cell repo = ''Imported'' \<longleftrightarrow>
           repo ''is_likely_imported'' = Some (J (JBool True)) \<and> \<not> ?E) \<and>
        (is_empty_cell repo = ''False'' \<longleftrightarrow>
           repo ''is_likely_imported'' \<noteq> Some (J (JBool True)) \<and> \<not> ?E)"
    unfolding same e [symmetric] imp [symmetric] by (simp add: is_empty_cell_def)
  with len cell show ?thesis by blast
qed

theorem is_empty_column_witness:
  "rget example_imported_repo ''commits_count'' (J (JInt 0)) = J (JInt 0) \<and>
   rget example_imported_repo ''branches_count'' (J (JInt 0)) = J (JInt 0) \<and>
   rget example_imported_repo ''size'' (J (JInt 0)) = J (JInt 0) \<and>
   rget example_imported_repo ''has_commits_indicator'' (J (JBool False)) = J (JBool True) \<and>
   example_imported_repo ''last_commit_at'' = Some (J (JStr ''2024-01-01'')) \<and>
   example_imported_repo ''is_likely_imported'' = Some (J (JBool True)) \<and>
   length (csv_row example_imported_repo) = 20 \<and>
   csv_row example_imported_repo ! 15 = J (JStr ''Imported'') \<and>
   csv_row (example_imported_repo(''is_likely_imported'' \<mapsto> J (JBool False))) ! 15 = J (JStr ''False'') \<and>
   csv_row (example_empty_repo(''is_likely_imported'' \<mapsto> J (JBool True))) ! 15 = J (JStr ''True'') \<and>
   csv_row example_empty_repo ! 15 = J (JStr ''True'')"
proof -
  have h1: "rget example_imported_repo ''commits_count'' (J (JInt 0)) = J (JInt 0)"
    and h2: "rget example_imported_repo ''branches_count'' (J (JInt 0)) = J (JInt 0)"
    and h3: "rget example_imported_repo ''size'' (J (JInt 0)) = J (JInt 0)"
    and h4: "rget example_imported_repo ''has_commits_indicator'' (J (JBool False)) = J (JBool True)"
    and h5: "example_imported_repo ''last_commit_at'' = Some (J (JStr ''2024-01-01''))"
    and h6: "example_imported_repo ''is_likely_imported'' = Some (J (JBool True))"
    by (simp_all add: example_imported_repo_def rget_def)
  have m5: "example_imported_repo ''last_commit_at'' \<in> {None, Some (J JNull)} \<union> range (\<lambda>t. Some (J (JStr t)))"
    unfolding h5 by simp
  have m6: "example_imported_repo ''is_likely_imported'' \<in> {None, Some (J (JBool False)), Some (J (JBool True))}"
    unfolding h6 by simp
  note t = is_empty_column [OF h1 h2 h3 h4 m5 m6]
  from t have len: "length (csv_row example_imported_repo) = 20"
    by (rule conjunct1)
  from t [THEN conjunct2] have a: "csv_row example_imported_repo ! 15 = J (JStr ''Imported'')"
  proof (elim exE conjE)
    fix cell
    assume 1: "csv_row example_imported_repo ! 15 = J (JStr cell)"
      and 2: "(cell = ''Imported'') =
         (example_imported_repo ''is_likely_imported'' = Some (J (JBool True)) \<and>
          \<not> ((0::int) = 0 \<and> (0::int) = 0 \<and> (0::int) = 0 \<and>
             timestamp_absent example_imported_repo \<and> \<not> True))"
    from 2 h6 have "cell = ''Imported''" by simp
    with 1 show ?thesis by simp
  qed
  have b: "csv_row (example_imported_repo(''is_likely_imported'' \<mapsto> J (JBool False))) ! 15 = J (JStr ''False'')"
    by (simp add: csv_row_def is_empty_cell_def is_empty_csv_def is_imported_def rget_def example_imported_repo_def)
  have d: "csv_row (example_empty_repo(''is_likely_imported'' \<mapsto> J (JBool True))) ! 15 = J (JStr ''True'')"
    by (simp add: csv_row_def is_empty_cell_def is_empty_csv_def is_imported_def rget_def example_empty_repo_def)
  have e: "csv_row example_empty_repo ! 15 = J (JStr ''True'')"
    by (simp add: csv_row_def is_empty_cell_def is_empty_csv_def is_imported_def rget_def example_empty_repo_def)
  from h1 h2 h3 h4 h5 h6 len a b d e show ?thesis by (intro conjI)
qed

section \<open>Basic facts about the frame\<close>

lemma say_fields [simp]:
  "requests (world (say m f)) = requests (world f)"
  "console (world (say m f)) = console (world f) @ [m]"
  "stats (say m f) = stats f"
  "branches_list (say m f) = branches_list f"
  "all_commits (say m f) = all_commits f"
  "latest_commit (say m f) = latest_commit f"
  "latest_commit_date (say m f) = latest_commit_date f"
  by (simp_all add: say_def print_def)

lemma set_stat_fields [simp]:
  "world (set_stat k v f) = world f"
  "stats (set_stat k v f) = (stats f)(k \<mapsto> v)"
  "branches_list (set_stat k v f) = branches_list f"
  "all_commits (set_stat k v f) = all_commits f"
  "latest_commit (set_stat k v f) = latest_commit f"
  "latest_commit_date (set_stat k v f) = latest_commit_date f"
  by (simp_all add: set_stat_def)

lemma requests_get_fields:
  assumes "requests_get srv u ps f = (r, f')"
  shows "r = srv (length (requests (world f))) \<lparr>url = u, params = ps\<rparr>"
    and "requests (world f') = requests (world f) @ [\<lparr>url = u, params = ps\<rparr>]"
    and "console (world f') = console (world f)"
    and "stats f' = stats f"
    and "branches_list f' = branches_list f"
    and "all_commits f' = all_commits f"
    and "latest_commit f' = latest_commit f"
    and "latest_commit_date f' = latest_commit_date f"
  using assms by (auto simp: requests_get_def http_get_def Let_def)

lemmas enricher_defs =
  get_git_repo_statistics_def initial_frame_def initial_stats_def branches_block_def branches_try_def
  tags_block_def tags_try_def commits_block_def commits_try_def final_statistics_def
  merge_requests_block_def merge_requests_try_def url_from_repo_data_def requests_get_def http_get_def
  say_def print_def set_stat_def json_of_def api_def take_first_as_latest_def detail_last_commit_at_def
  stat_def estimate_def py_max1_def alternative_endpoints_def alternative_commit_endpoints_def

section \<open>Errors without a message\<close>

text \<open>
  C6 fails on the code. The tags request is answered with status 500 and the
  merge-requests request with status 404: both counts stay at their default 0, and the
  console has no line about either; a status that is not expected is reported for the
  branches (line 272) and for the commits (lines 341 and 395) only.
\<close>

theorem tags_status_dropped_silently:
  "map url (requests (snd (get_git_repo_statistics tags_fail_service ''demo'' (JStr ''r1'') None start))) =
     [''https://in-api.assembla.com/v1/spaces/demo/repos/git/branches'',
      ''https://in-api.assembla.com/v1/spaces/demo/repos/git/tags'',
      ''https://in-api.assembla.com/v1/spaces/demo/repos/git/commits'',
      ''https://in-api.assembla.com/v1/spaces/demo/space_tools/r1/merge_requests.json''] \<and>
   console (snd (get_git_repo_statistics tags_fail_service ''demo'' (JStr ''r1'') None start)) =
     [UsingDefaultBranchesUrl, FoundBranches 0, UsingDefaultCommitsUrl, FoundCommitsTotal 0, FinalStats] \<and>
   stat_of (get_git_repo_statistics tags_fail_service ''demo'' (JStr ''r1'') None start) ''tags_count'' = Some (JInt 0) \<and>
   stat_of (get_git_repo_statistics tags_fail_service ''demo'' (JStr ''r1'') None start) ''merge_requests_count'' = Some (JInt 0)"
  by (simp add: enricher_defs stat_of_def start_def tags_fail_service_def Let_def)

section \<open>The fallback chains\<close>

lemma branch_chain_step:
  assumes "n = length (requests (world f))"
  shows "if branch_alternate_succeeds (srv n (alt_request u))
         then requests (world (try_alternative_endpoints srv (u # us) i f)) =
                requests (world f) @ [alt_request u]
         else \<exists>f'. try_alternative_endpoints srv (u # us) i f =
                     try_alternative_endpoints srv us (Suc i) f' \<and>
                   requests (world f') = requests (world f) @ [alt_request u]"
proof -
  obtain r f1 where g: "requests_get srv u [] (say (TryingAlternativeEndpoint i) f) = (r, f1)"
    by (cases "requests_get srv u [] (say (TryingAlternativeEndpoint i) f)")
  from requests_get_fields(1,2) [OF g] assms
  have r: "srv n (alt_request u) = r"
    and q: "requests (world f1) = requests (world f) @ [alt_request u]"
    by (simp_all add: alt_request_def)
  show ?thesis
    unfolding r using g q
    by (auto simp: branch_alternate_succeeds_def json_of_def Let_def
        split: reply.splits option.splits sum.splits)
qed

lemma branch_chain_requests:
  "requests (world (try_alternative_endpoints srv urls i f)) =
   requests (world f) @
     map alt_request
       (take (alternates_tried branch_alternate_succeeds srv (length (requests (world f))) urls) urls)"
proof (induction urls arbitrary: i f)
  case Nil
  then show ?case by simp
next
  case (Cons u us)
  show ?case
  proof (cases "branch_alternate_succeeds (srv (length (requests (world f))) (alt_request u))")
    case True
    with branch_chain_step [OF refl, of srv f u us i] show ?thesis by simp
  next
    case False
    with branch_chain_step [OF refl, of srv f u us i]
    obtain f' where s: "try_alternative_endpoints srv (u # us) i f =
                     try_alternative_endpoints srv us (Suc i) f'"
      and q: "requests (world f') = requests (world f) @ [alt_request u]"
      by auto
    show ?thesis
      unfolding s using False by (simp add: Cons.IH q)
  qed
qed

lemma commit_chain_step:
  assumes "n = length (requests (world f))"
  shows "if commit_alternate_succeeds (srv n (alt_request u))
         then requests (world (try_alternative_commit_endpoints srv (u # us) i f)) =
                requests (world f) @ [alt_request u]
         else \<exists>f'. try_alternative_commit_endpoints srv (u # us) i f =
                     try_alternative_commit_endpoints srv us (Suc i) f' \<and>
                   requests (world f') = requests (world f) @ [alt_request u]"
proof -
  obtain r f1 where g: "requests_get srv u [] (say (TryingAlternativeCommitsEndpoint i) f) = (r, f1)"
    by (cases "requests_get srv u [] (say (TryingAlternativeCommitsEndpoint i) f)")
  from requests_get_fields(1,2) [OF g] assms
  have r: "srv n (alt_request u) = r"
    and q: "requests (world f1) = requests (world f) @ [alt_request u]"
    by (simp_all add: alt_request_def)
  show ?thesis
    unfolding r using g q
    by (auto simp: commit_alternate_succeeds_def json_of_def Let_def take_first_as_latest_def
        split: reply.splits option.splits sum.splits)
qed

lemma commit_chain_requests:
  "requests (world (try_alternative_commit_endpoints srv urls i f)) =
   requests (world f) @
     map alt_request
       (take (alternates_tried commit_alternate_succeeds srv (length (requests (world f))) urls) urls)"
proof (induction urls arbitrary: i f)
  case Nil
  then show ?case by simp
next
  case (Cons u us)
  show ?case
  proof (cases "commit_alternate_succeeds (srv (length (requests (world f))) (alt_request u))")
    case True
    with commit_chain_step [OF refl, of srv f u us i] show ?thesis by simp
  next
    case False
    with commit_chain_step [OF refl, of srv f u us i]
    obtain f' where s: "try_alternative_commit_endpoints srv (u # us) i f =
                     try_alternative_commit_endpoints srv us (Suc i) f'"
      and q: "requests (world f') = requests (world f) @ [alt_request u]"
      by auto
    show ?thesis
      unfolding s using False by (simp add: Cons.IH q)
  qed
qed

lemma alternates_tried_le: "alternates_tried ok srv n urls \<le> length urls"
  by (induction urls arbitrary: n) auto

lemma alternates_tried_last:
  "j < alternates_tried ok srv n urls \<Longrightarrow> ok (srv (n + j) (alt_request (urls ! j))) \<Longrightarrow>
   Suc j = alternates_tried ok srv n urls"
proof (induction urls arbitrary: n j)
  case Nil
  then show ?case by simp
next
  case (Cons u us)
  show ?case
  proof (cases "ok (srv n (alt_request u))")
    case True
    with Cons.prems show ?thesis by simp
  next
    case False
    show ?thesis
    proof (cases j)
      case 0
      with Cons.prems False show ?thesis by simp
    next
      case (Suc j')
      with Cons.prems False have "j' < alternates_tried ok srv (Suc n) us"
        and "ok (srv (Suc n + j') (alt_request (us ! j')))" by simp_all
      from Cons.IH [OF this] False Suc show ?thesis by simp
    qed
  qed
qed

lemma alternates_tried_early:
  "alternates_tried ok srv n urls < length urls \<Longrightarrow>
   ok (srv (n + (alternates_tried ok srv n urls - 1))
         (alt_request (urls ! (alternates_tried ok srv n urls - 1))))"
proof (induction urls arbitrary: n)
  case Nil
  then show ?case by simp
next
  case (Cons u us)
  show ?case
  proof (cases "ok (srv n (alt_request u))")
    case True
    then show ?thesis by simp
  next
    case False
    with Cons.prems have lt: "alternates_tried ok srv (Suc n) us < length us" by simp
    have pos: "0 < alternates_tried ok srv (Suc n) us"
      using lt by (cases us) (auto split: if_splits)
    from Cons.IH [OF lt] False pos show ?thesis
      by (cases "alternates_tried ok srv (Suc n) us") simp_all
  qed
qed


lemma chain_outcome_tried:
  "chain_outcome ok srv urls before
     (before @ map alt_request (take (alternates_tried ok srv (length before) urls) urls))"
proof -
  let ?k = "alternates_tried ok srv (length before) urls"
  have pos: "?k < length urls \<longrightarrow> 0 < ?k"
    by (cases urls) (auto split: if_splits)
  show ?thesis
    unfolding chain_outcome_def
    using alternates_tried_le [of ok srv "length before" urls]
      alternates_tried_last [of _ ok srv "length before" urls]
      alternates_tried_early [of ok srv "length before" urls] pos
    by (intro exI [of _ ?k]) auto
qed

lemma branch_chain_step_console:
  assumes "n = length (requests (world f))"
  shows "if branch_alternate_succeeds (srv n (alt_request u))
         then branch_alternate_raises (srv n (alt_request u)) = None
         else \<exists>f'. try_alternative_endpoints srv (u # us) i f =
                     try_alternative_endpoints srv us (Suc i) f' \<and>
                   requests (world f') = requests (world f) @ [alt_request u] \<and>
                   set (console (world f)) \<subseteq> set (console (world f')) \<and>
                   (case branch_alternate_raises (srv n (alt_request u)) of
                      None \<Rightarrow> True
                    | Some e \<Rightarrow> AlternativeException i e \<in> set (console (world f')))"
proof -
  obtain r f1 where g: "requests_get srv u [] (say (TryingAlternativeEndpoint i) f) = (r, f1)"
    by (cases "requests_get srv u [] (say (TryingAlternativeEndpoint i) f)")
  from requests_get_fields(1,2,3) [OF g] assms
  have r: "srv n (alt_request u) = r"
    and q: "requests (world f1) = requests (world f) @ [alt_request u]"
    and c: "console (world f1) = console (world f) @ [TryingAlternativeEndpoint i]"
    by (simp_all add: alt_request_def)
  show ?thesis
    unfolding r using g q c
    by (auto simp: branch_alternate_succeeds_def branch_alternate_raises_def json_of_def Let_def
        split: reply.splits option.splits sum.splits)
qed

lemma branch_chain_console_mono:
  "set (console (world f)) \<subseteq> set (console (world (try_alternative_endpoints srv urls i f)))"
proof (induction urls arbitrary: i f)
  case Nil
  then show ?case by simp
next
  case (Cons u us)
  obtain r f1 where g: "requests_get srv u [] (say (TryingAlternativeEndpoint i) f) = (r, f1)"
    by (cases "requests_get srv u [] (say (TryingAlternativeEndpoint i) f)")
  from requests_get_fields(3) [OF g]
  have c: "console (world f1) = console (world f) @ [TryingAlternativeEndpoint i]"
    by simp
  have sub: "\<And>g i. set (console (world f)) \<subseteq> set (console (world g)) \<Longrightarrow>
      set (console (world f)) \<subseteq> set (console (world (try_alternative_endpoints srv us i g)))"
    using Cons.IH by (meson subset_trans)
  show ?case
    using g c by (auto simp: Let_def split: reply.splits sum.splits intro!: sub [THEN subsetD])
qed

lemma branch_chain_console:
  "j < alternates_tried branch_alternate_succeeds srv (length (requests (world f))) urls \<Longrightarrow>
   branch_alternate_raises (srv (length (requests (world f)) + j) (alt_request (urls ! j))) = Some e \<Longrightarrow>
   AlternativeException (i + j) e \<in> set (console (world (try_alternative_endpoints srv urls i f)))"
proof (induction urls arbitrary: i f j)
  case Nil
  then show ?case by simp
next
  case (Cons u us)
  let ?n = "length (requests (world f))"
  note step = branch_chain_step_console [OF refl, of srv f u us i]
  show ?case
  proof (cases "branch_alternate_succeeds (srv ?n (alt_request u))")
    case True
    with Cons.prems(1) have "j = 0" by simp
    with step True Cons.prems(2) show ?thesis by simp
  next
    case False
    with step obtain f' where s: "try_alternative_endpoints srv (u # us) i f =
                     try_alternative_endpoints srv us (Suc i) f'"
      and q: "requests (world f') = requests (world f) @ [alt_request u]"
      and c: "case branch_alternate_raises (srv ?n (alt_request u)) of
                None \<Rightarrow> True
              | Some e \<Rightarrow> AlternativeException i e \<in> set (console (world f'))"
      by auto
    show ?thesis
    proof (cases j)
      case 0
      with Cons.prems(2) c have "AlternativeException i e \<in> set (console (world f'))" by simp
      then have "AlternativeException i e \<in> set (console (world (try_alternative_endpoints srv us (Suc i) f')))"
        using branch_chain_console_mono [of f' srv us "Suc i"] by (rule subsetD [rotated])
      with 0 show ?thesis unfolding s by simp
    next
      case (Suc j')
      from Cons.prems False Suc
      have a: "j' < alternates_tried branch_alternate_succeeds srv (length (requests (world f'))) us"
        and b: "branch_alternate_raises (srv (length (requests (world f')) + j') (alt_request (us ! j'))) = Some e"
        by (simp_all add: q)
      from Cons.IH [OF a b, of "Suc i"] Suc show ?thesis unfolding s by simp
    qed
  qed
qed

lemma commit_chain_step_console:
  assumes "n = length (requests (world f))"
  shows "if commit_alternate_succeeds (srv n (alt_request u))
         then commit_alternate_raises (srv n (alt_request u)) = None
         else \<exists>f'. try_alternative_commit_endpoints srv (u # us) i f =
                     try_alternative_commit_endpoints srv us (Suc i) f' \<and>
                   requests (world f') = requests (world f) @ [alt_request u] \<and>
                   set (console (world f)) \<subseteq> set (console (world f')) \<and>
                   (case commit_alternate_raises (srv n (alt_request u)) of
                      None \<Rightarrow> True
                    | Some e \<Rightarrow> AlternativeCommitsException i e \<in> set (console (world f')))"
proof -
  obtain r f1 where g: "requests_get srv u [] (say (TryingAlternativeCommitsEndpoint i) f) = (r, f1)"
    by (cases "requests_get srv u [] (say (TryingAlternativeCommitsEndpoint i) f)")
  from requests_get_fields(1,2,3) [OF g] assms
  have r: "srv n (alt_request u) = r"
    and q: "requests (world f1) = requests (world f) @ [alt_request u]"
    and c: "console (world f1) = console (world f) @ [TryingAlternativeCommitsEndpoint i]"
    by (simp_all add: alt_request_def)
  show ?thesis
    unfolding r using g q c
    by (auto simp: commit_alternate_succeeds_def commit_alternate_raises_def json_of_def Let_def
        take_first_as_latest_def
        split: reply.splits option.splits sum.splits)
qed

lemma commit_chain_console_mono:
  "set (console (world f)) \<subseteq> set (console (world (try_alternative_commit_endpoints srv urls i f)))"
proof (induction urls arbitrary: i f)
  case Nil
  then show ?case by simp
next
  case (Cons u us)
  obtain r f1 where g: "requests_get srv u [] (say (TryingAlternativeCommitsEndpoint i) f) = (r, f1)"
    by (cases "requests_get srv u [] (say (TryingAlternativeCommitsEndpoint i) f)")
  from requests_get_fields(3) [OF g]
  have c: "console (world f1) = console (world f) @ [TryingAlternativeCommitsEndpoint i]"
    by simp
  have sub: "\<And>g i. set (console (world f)) \<subseteq> set (console (world g)) \<Longrightarrow>
      set (console (world f)) \<subseteq> set (console (world (try_alternative_commit_endpoints srv us i g)))"
    using Cons.IH by (meson subset_trans)
  show ?case
    using g c by (auto simp: Let_def take_first_as_latest_def
        split: reply.splits sum.splits intro!: sub [THEN subsetD])
qed

lemma commit_chain_console:
  "j < alternates_tried commit_alternate_succeeds srv (length (requests (world f))) urls \<Longrightarrow>
   commit_alternate_raises (srv (length (requests (world f)) + j) (alt_request (urls ! j))) = Some e \<Longrightarrow>
   AlternativeCommitsException (i + j) e \<in> set (console (world (try_alternative_commit_endpoints srv urls i f)))"
proof (induction urls arbitrary: i f j)
  case Nil
  then show ?case by simp
next
  case (Cons u us)
  let ?n = "length (requests (world f))"
  note step = commit_chain_step_console [OF refl, of srv f u us i]
  show ?case
  proof (cases "commit_alternate_succeeds (srv ?n (alt_request u))")
    case True
    with Cons.prems(1) have "j = 0" by simp
    with step True Cons.prems(2) show ?thesis by simp
  next
    case False
    with step obtain f' where s: "try_alternative_commit_endpoints srv (u # us) i f =
                     try_alternative_commit_endpoints srv us (Suc i) f'"
      and q: "requests (world f') = requests (world f) @ [alt_request u]"
      and c: "case commit_alternate_raises (srv ?n (alt_request u)) of
                None \<Rightarrow> True
              | Some e \<Rightarrow> AlternativeCommitsException i e \<in> set (console (world f'))"
      by auto
    show ?thesis
    proof (cases j)
      case 0
      with Cons.prems(2) c have "AlternativeCommitsException i e \<in> set (console (world f'))" by simp
      then have "AlternativeCommitsException i e \<in> set (console (world (try_alternative_commit_endpoints srv us (Suc i) f')))"
        using commit_chain_console_mono [of f' srv us "Suc i"] by (rule subsetD [rotated])
      with 0 show ?thesis unfolding s by simp
    next
      case (Suc j')
      from Cons.prems False Suc
      have a: "j' < alternates_tried commit_alternate_succeeds srv (length (requests (world f'))) us"
        and b: "commit_alternate_raises (srv (length (requests (world f')) + j') (alt_request (us ! j'))) = Some e"
        by (simp_all add: q)
      from Cons.IH [OF a b, of "Suc i"] Suc show ?thesis unfolding s by simp
    qed
  qed
qed

lemma chain_reports_tried:
  assumes "\<And>j e. j < alternates_tried ok srv (length before) urls \<Longrightarrow>
      raises (srv (length before + j) (alt_request (urls ! j))) = Some e \<Longrightarrow> report (i + j) e \<in> set out"
  shows "chain_reports raises report srv urls i before
     (before @ map alt_request (take (alternates_tried ok srv (length before) urls) urls)) out"
  unfolding chain_reports_def
  using assms alternates_tried_le [of ok srv "length before" urls]
  by (auto split: option.splits)

text \<open>
  C2, as the code has it. Each of the two chains requests its alternates in their fixed
  order and stops at the first one that succeeds: for the branches, an answer with status
  200 whose body decodes to a value with a length; for the commits, the same with a
  value that is empty or whose first element can be taken. No alternate is requested
  after one that succeeded, and the chain stops before its end only for that reason.
  An alternate whose request raises, or whose answer has status 200 and a body that does
  not decode or a value without a length (for the commits: or whose first element cannot
  be taken), is reported on the console as an exception of that alternate, and it does not
  succeed, so the next alternate is requested.
\<close>

theorem fallback_chains:
  "chain_outcome branch_alternate_succeeds srv urls (requests (world f))
     (requests (world (try_alternative_endpoints srv urls i f))) \<and>
   chain_reports branch_alternate_raises AlternativeException srv urls i (requests (world f))
     (requests (world (try_alternative_endpoints srv urls i f)))
     (console (world (try_alternative_endpoints srv urls i f))) \<and>
   chain_outcome commit_alternate_succeeds srv urls (requests (world f))
     (requests (world (try_alternative_commit_endpoints srv urls i f))) \<and>
   chain_reports commit_alternate_raises AlternativeCommitsException srv urls i (requests (world f))
     (requests (world (try_alternative_commit_endpoints srv urls i f)))
     (console (world (try_alternative_commit_endpoints srv urls i f)))"
proof (intro conjI)
  show "chain_outcome branch_alternate_succeeds srv urls (requests (world f))
     (requests (world (try_alternative_endpoints srv urls i f)))"
    by (simp add: branch_chain_requests chain_outcome_tried)
  show "chain_outcome commit_alternate_succeeds srv urls (requests (world f))
     (requests (world (try_alternative_commit_endpoints srv urls i f)))"
    by (simp add: commit_chain_requests chain_outcome_tried)
  show "chain_reports branch_alternate_raises AlternativeException srv urls i (requests (world f))
     (requests (world (try_alternative_endpoints srv urls i f)))
     (console (world (try_alternative_endpoints srv urls i f)))"
    unfolding branch_chain_requests
    by (rule chain_reports_tried) (rule branch_chain_console)
  show "chain_reports commit_alternate_raises AlternativeCommitsException srv urls i (requests (world f))
     (requests (world (try_alternative_commit_endpoints srv urls i f)))
     (console (world (try_alternative_commit_endpoints srv urls i f)))"
    unfolding commit_chain_requests
    by (rule chain_reports_tried) (rule commit_chain_console)
qed

text \<open>
  The first branch alternate is answered with status 200 and a body that is not JSON;
  the second alternate is requested all the same.
\<close>

theorem status_200_not_json_counterexample:
  "not_json_service 1 (alt_request ''https://in-api.assembla.com/v1/spaces/demo/space_tools/r1/git/branches'')
     = Reply \<lparr>status_code = 200, body = None\<rparr> \<and>
   map url (requests (snd (get_git_repo_statistics not_json_service ''demo'' (JStr ''r1'') None start))) =
     [''https://in-api.assembla.com/v1/spaces/demo/repos/git/branches'',
      ''https://in-api.assembla.com/v1/spaces/demo/space_tools/r1/git/branches'',
      ''https://in-api.assembla.com/v1/spaces/demo/repos/r1/git/branches'',
      ''https://in-api.assembla.com/v1/spaces/demo/repos/git/tags'',
      ''https://in-api.assembla.com/v1/spaces/demo/repos/git/commits'',
      ''https://in-api.assembla.com/v1/spaces/demo/space_tools/r1/merge_requests.json'']"
  by (simp add: enricher_defs start_def not_json_service_def alt_request_def Let_def)

theorem fallback_chains_witness:
  "chain_outcome branch_alternate_succeeds not_json_service (alternative_endpoints ''demo'' (JStr ''r1''))
     (requests (world (initial_frame start)))
     (requests (world (try_alternative_endpoints not_json_service
        (alternative_endpoints ''demo'' (JStr ''r1'')) 1 (initial_frame start)))) \<and>
   chain_reports branch_alternate_raises AlternativeException not_json_service
     (alternative_endpoints ''demo'' (JStr ''r1'')) 1
     (requests (world (initial_frame start)))
     (requests (world (try_alternative_endpoints not_json_service
        (alternative_endpoints ''demo'' (JStr ''r1'')) 1 (initial_frame start))))
     (console (world (try_alternative_endpoints not_json_service
        (alternative_endpoints ''demo'' (JStr ''r1'')) 1 (initial_frame start)))) \<and>
   requests (world (try_alternative_endpoints not_json_service
        (alternative_endpoints ''demo'' (JStr ''r1'')) 1 (initial_frame start))) =
     map alt_request (take 2 (alternative_endpoints ''demo'' (JStr ''r1''))) \<and>
   branch_alternate_raises (not_json_service 0
        (alt_request ''https://in-api.assembla.com/v1/spaces/demo/space_tools/r1/git/branches''))
     = Some JSONDecodeError \<and>
   console (world (try_alternative_endpoints not_json_service
        (alternative_endpoints ''demo'' (JStr ''r1'')) 1 (initial_frame start))) =
     [TryingAlternativeEndpoint 1, AlternativeEndpointStatus 1 200,
      AlternativeException 1 JSONDecodeError,
      TryingAlternativeEndpoint 2, AlternativeEndpointStatus 2 200, AlternativeSuccess 2 0] \<and>
   requests (world (try_alternative_commit_endpoints not_json_service
        (alternative_commit_endpoints ''demo'' (JStr ''r1'')) 1 (initial_frame start))) =
     map alt_request (take 1 (alternative_commit_endpoints ''demo'' (JStr ''r1'')))"
proof -
  have a: "requests (world (try_alternative_endpoints not_json_service
        (alternative_endpoints ''demo'' (JStr ''r1'')) 1 (initial_frame start))) =
     map alt_request (take 2 (alternative_endpoints ''demo'' (JStr ''r1'')))"
    by (simp add: enricher_defs start_def not_json_service_def alt_request_def Let_def)
  have b: "requests (world (try_alternative_commit_endpoints not_json_service
        (alternative_commit_endpoints ''demo'' (JStr ''r1'')) 1 (initial_frame start))) =
     map alt_request (take 1 (alternative_commit_endpoints ''demo'' (JStr ''r1'')))"
    by (simp add: enricher_defs start_def not_json_service_def alt_request_def Let_def)
  have c: "branch_alternate_raises (not_json_service 0
        (alt_request ''https://in-api.assembla.com/v1/spaces/demo/space_tools/r1/git/branches''))
     = Some JSONDecodeError"
    by (simp add: branch_alternate_raises_def not_json_service_def alt_request_def)
  have d: "console (world (try_alternative_endpoints not_json_service
        (alternative_endpoints ''demo'' (JStr ''r1'')) 1 (initial_frame start))) =
     [TryingAlternativeEndpoint 1, AlternativeEndpointStatus 1 200,
      AlternativeException 1 JSONDecodeError,
      TryingAlternativeEndpoint 2, AlternativeEndpointStatus 2 200, AlternativeSuccess 2 0]"
    by (simp add: enricher_defs start_def not_json_service_def alt_request_def Let_def)
  note t = fallback_chains [of not_json_service "alternative_endpoints ''demo'' (JStr ''r1'')" "initial_frame start" 1]
  from t have t1: "chain_outcome branch_alternate_succeeds not_json_service (alternative_endpoints ''demo'' (JStr ''r1''))
     (requests (world (initial_frame start)))
     (requests (world (try_alternative_endpoints not_json_service
        (alternative_endpoints ''demo'' (JStr ''r1'')) 1 (initial_frame start))))"
    by (rule conjunct1)
  from t have t2: "chain_reports branch_alternate_raises AlternativeException not_json_service
     (alternative_endpoints ''demo'' (JStr ''r1'')) 1
     (requests (world (initial_frame start)))
     (requests (world (try_alternative_endpoints not_json_service
        (alternative_endpoints ''demo'' (JStr ''r1'')) 1 (initial_frame start))))
     (console (world (try_alternative_endpoints not_json_service
        (alternative_endpoints ''demo'' (JStr ''r1'')) 1 (initial_frame start))))"
    by (rule conjunct2 [THEN conjunct1])
  from t1 t2 a c d b show ?thesis by (intro conjI)
qed

section \<open>What the branch and tag blocks leave alone\<close>




section \<open>De-duplication of commits\<close>













section \<open>A space without repositories\<close>




section \<open>The statistics through the blocks\<close>




lemma sets_count_refl [simp]: "sets_count k f f"
  by (simp add: sets_count_def)

lemma sets_count_say [simp]: "sets_count k f (say m f') = sets_count k f f'"
  by (simp add: sets_count_def)















lemma take_first_keeps:
  "take_first_as_latest f = (r, f') \<Longrightarrow>
   stats f' = stats f \<and> branches_list f' = branches_list f \<and> all_commits f' = all_commits f"
  by (auto simp: take_first_as_latest_def split: if_splits sum.splits)





section \<open>The latest commit\<close>

lemma tracked_say [simp]: "tracked P (say m f) = tracked P f"
  by (simp add: tracked_def)











section \<open>The synthesized estimate\<close>








section \<open>What the enricher returns\<close>















section \<open>Merging the statistics into the record\<close>





end
